theory Spec2Isabelle
  imports Complex_Main "HOL-Library.Sublist"
begin

section \<open>Python values\<close>

text \<open>
  The exceptions that the modelled code can raise. Every function that can raise returns
  a sum, with \<open>Inl\<close> for the exception.
\<close>

datatype py_error = AttributeError | TypeError | ValueError | IndexError

text \<open>
  A Python float is modelled by its exact value, a rational, or one of the special values:
  negative zero, the two infinities and NaN. \<open>Finite 0\<close> is positive zero. Comparison of
  a float with an integer is exact in Python, so it is the comparison of the rational.
\<close>

datatype py_float = Finite rat | NegZero | PosInf | NegInf | NaN

text \<open>
  The values that the program stores in its dictionaries (\<open>Dict[str, Any]\<close> in the source):
  \<open>None\<close>, a string, or a float. A character is an Isabelle \<open>char\<close>, read as a code
  point below 256.
\<close>

datatype py_val = PNone | PStr string | PFloat py_float

type_synonym py_dict = "string \<rightharpoonup> py_val"

text \<open>Truth value of an object, as \<open>if x\<close> and \<open>not x\<close> test it.\<close>

fun truthy :: "py_val \<Rightarrow> bool" where
  "truthy PNone = False"
| "truthy (PStr s) = (s \<noteq> [])"
| "truthy (PFloat x) = (x \<noteq> Finite 0 \<and> x \<noteq> NegZero)"

text \<open>\<open>d.get(k)\<close> and \<open>d.get(k, default)\<close>.\<close>

definition dict_get :: "py_dict \<Rightarrow> string \<Rightarrow> py_val" where
  "dict_get d k = (case d k of None \<Rightarrow> PNone | Some v \<Rightarrow> v)"

definition dict_get_default :: "py_dict \<Rightarrow> string \<Rightarrow> py_val \<Rightarrow> py_val" where
  "dict_get_default d k dflt = (case d k of None \<Rightarrow> dflt | Some v \<Rightarrow> v)"

section \<open>String methods\<close>

text \<open>\<open>str.isspace\<close> on one character: the whitespace code points below 256.\<close>

definition py_isspace :: "char \<Rightarrow> bool" where
  "py_isspace c = (let n = (of_char c :: nat) in
     (9 \<le> n \<and> n \<le> 13) \<or> (28 \<le> n \<and> n \<le> 32) \<or> n = 133 \<or> n = 160)"

text \<open>\<open>str.lower\<close>: the upper-case letters below 256 are A-Z and the Latin-1 capitals.\<close>

definition py_lower_char :: "char \<Rightarrow> char" where
  "py_lower_char c = (let n = (of_char c :: nat) in
     if (65 \<le> n \<and> n \<le> 90) \<or> (192 \<le> n \<and> n \<le> 222 \<and> n \<noteq> 215)
     then char_of (n + 32) else c)"

definition py_lower :: "string \<Rightarrow> string" where
  "py_lower s = map py_lower_char s"

text \<open>\<open>x.lower()\<close> on an arbitrary value: only a string has the method.\<close>

fun method_lower :: "py_val \<Rightarrow> py_error + string" where
  "method_lower (PStr s) = Inr (py_lower s)"
| "method_lower PNone = Inl AttributeError"
| "method_lower (PFloat x) = Inl AttributeError"

text \<open>\<open>s.strip()\<close>, \<open>s.split()\<close> (no argument: split at whitespace runs, no empty
  pieces) and \<open>sep.join(xs)\<close>.\<close>

definition py_strip :: "string \<Rightarrow> string" where
  "py_strip s = rev (dropWhile py_isspace (rev (dropWhile py_isspace s)))"

fun split_from :: "string \<Rightarrow> string \<Rightarrow> string list" where
  "split_from cur [] = (if cur = [] then [] else [rev cur])"
| "split_from cur (c # cs) =
     (if py_isspace c
      then (if cur = [] then split_from [] cs else rev cur # split_from [] cs)
      else split_from (c # cur) cs)"

definition py_split :: "string \<Rightarrow> string list" where
  "py_split s = split_from [] s"

fun py_join :: "string \<Rightarrow> string list \<Rightarrow> string" where
  "py_join sep [] = []"
| "py_join sep [x] = x"
| "py_join sep (x # y # ys) = x @ sep @ py_join sep (y # ys)"

text \<open>\<open>k in s\<close> for strings is containment as a contiguous substring.\<close>

definition py_in :: "string \<Rightarrow> string \<Rightarrow> bool" where
  "py_in k s = sublist k s"

section \<open>Number formatting\<close>

text \<open>Decimal digits of a natural number.\<close>

definition digit_char :: "nat \<Rightarrow> char" where
  "digit_char d = char_of (48 + d)"

fun dec_digits :: "nat \<Rightarrow> string" where
  "dec_digits n = (if n < 10 then [digit_char n] else dec_digits (n div 10) @ [digit_char (n mod 10)])"

declare dec_digits.simps [simp del]

text \<open>The thousands separator of the format specification \<open>,\<close>: a comma before every
  group of three digits, counted from the right.\<close>

fun group3_rev :: "string \<Rightarrow> string" where
  "group3_rev (a # b # c # d # r) = a # b # c # CHR '','' # group3_rev (d # r)"
| "group3_rev xs = xs"

definition group3 :: "string \<Rightarrow> string" where
  "group3 s = rev (group3_rev (rev s))"

text \<open>\<open>f"{n:,}"\<close> for an integer.\<close>

definition fmt_int_comma :: "int \<Rightarrow> string" where
  "fmt_int_comma n = (if n < 0 then ''-'' else '''') @ group3 (dec_digits (nat \<bar>n\<bar>))"

text \<open>Rounding of a non-negative rational to the nearest natural number, ties to even:
  the rounding of the fixed-point format.\<close>

definition round_half_even :: "rat \<Rightarrow> nat" where
  "round_half_even q = (let f = \<lfloor>q\<rfloor>; r = q - of_int f in
     nat (if r < 1 / 2 then f else if 1 / 2 < r then f + 1 else if even f then f else f + 1))"

text \<open>\<open>f"{x:,.2f}"\<close> for a float.\<close>

fun fmt_float_comma_2f :: "py_float \<Rightarrow> string" where
  "fmt_float_comma_2f (Finite q) =
     (let n = round_half_even (\<bar>q\<bar> * 100) in
      (if q < 0 then ''-'' else '''') @ group3 (dec_digits (n div 100)) @ ''.''
        @ [digit_char (n mod 100 div 10), digit_char (n mod 10)])"
| "fmt_float_comma_2f NegZero = ''-0.00''"
| "fmt_float_comma_2f PosInf = ''inf''"
| "fmt_float_comma_2f NegInf = ''-inf''"
| "fmt_float_comma_2f NaN = ''nan''"

text \<open>\<open>x < n\<close> for a float \<open>x\<close> and an integer \<open>n\<close>; every comparison with NaN is false.\<close>

fun float_lt_int :: "py_float \<Rightarrow> int \<Rightarrow> bool" where
  "float_lt_int (Finite q) n = (q < of_int n)"
| "float_lt_int NegZero n = (0 < n)"
| "float_lt_int PosInf n = False"
| "float_lt_int NegInf n = True"
| "float_lt_int NaN n = False"

section \<open>Class constants of ClaimsProcessor\<close>

definition MANDATORY_FIELDS :: "string list" where
  "MANDATORY_FIELDS = [''policy_number'', ''policyholder_name'', ''date_of_loss'',
     ''location_of_loss'', ''description_of_accident'', ''claim_type'']"

definition FAST_TRACK_THRESHOLD :: int where
  "FAST_TRACK_THRESHOLD = 25000"

definition FRAUD_KEYWORDS :: "string list" where
  "FRAUD_KEYWORDS = [''fraud'', ''inconsistent'', ''staged'', ''suspicious'', ''fabricated'']"

section \<open>The claim-type classifier\<close>

definition injury_keywords :: "string list" where
  "injury_keywords = [''injury'', ''injured'', ''hospital'', ''medical'', ''ambulance'', ''bodily'']"

definition determine_claim_type :: "string \<Rightarrow> string" where
  "determine_claim_type text =
     (let text_lower = py_lower text in
      if list_ex (\<lambda>keyword. py_in keyword text_lower) injury_keywords then ''injury''
      else if py_in ''property'' text_lower \<or> py_in ''damage'' text_lower then ''property_damage''
      else if py_in ''collision'' text_lower \<or> py_in ''accident'' text_lower then ''collision''
      else ''auto'')"

section \<open>The regular-expression engine\<close>

text \<open>
  \<open>re.search\<close> belongs to the Python library, not to this program: it is a parameter of
  the model. Called with a pattern, a text and a set of flags, it returns no match, or the
  first match in the text. Of a match the program reads only the groups: a match is the list
  of the values of its groups 1, 2, ..., where a group that took no part in the match has the
  value \<open>None\<close>.
\<close>

datatype re_flag = IGNORECASE | MULTILINE

type_synonym re_match = "string option list"

type_synonym re_engine = "string \<Rightarrow> string \<Rightarrow> re_flag set \<Rightarrow> re_match option"

text \<open>\<open>m.group(i)\<close> for \<open>i \<ge> 1\<close>: a group that the pattern does not have raises.\<close>

definition match_group :: "re_match \<Rightarrow> nat \<Rightarrow> py_error + string option" where
  "match_group m i = (if 1 \<le> i \<and> i \<le> length m then Inr (m ! (i - 1)) else Inl IndexError)"

text \<open>\<open>float(s)\<close> is a builtin and a parameter as well: it gives a float, or raises
  ValueError (the value \<open>None\<close> of the parameter).\<close>

type_synonym float_parser = "string \<Rightarrow> py_float option"

section \<open>The field extractor\<close>

definition extract_field :: "re_engine \<Rightarrow> string \<Rightarrow> string \<Rightarrow> py_error + string option" where
  "extract_field re_search text pattern =
     (case re_search pattern text {IGNORECASE, MULTILINE} of
        None \<Rightarrow> Inr None
      | Some m \<Rightarrow>
          (case match_group m 1 of
             Inl e \<Rightarrow> Inl e
           | Inr None \<Rightarrow> Inl AttributeError
           | Inr (Some g) \<Rightarrow>
               (let val = py_strip g;
                    val = py_join '' '' (py_split val)
                in Inr (if val \<noteq> [] then Some val else None))))"

section \<open>The patterns of extract_from_pdf\<close>

abbreviation (input) bsl :: string where "bsl \<equiv> [CHR 0x5C]"

abbreviation (input) apo :: string where "apo \<equiv> [CHR 0x27]"

text \<open>\<^verbatim>\<open>r'POLICY NUMBER[:\s]*([A-Z0-9-]+)'\<close>\<close>

definition PAT_POLICY_NUMBER :: string where
  "PAT_POLICY_NUMBER = ''POLICY NUMBER[:'' @ bsl @ ''s]*([A-Z0-9-]+)''"

text \<open>\<^verbatim>\<open>r'NAME OF INSURED[:\s]*\(First, Middle, Last\)[:\s]*([A-Za-z\s,\.]+?)(?:\n|DATE OF BIRTH)'\<close>\<close>

definition PAT_POLICYHOLDER_NAME :: string where
  "PAT_POLICYHOLDER_NAME = ''NAME OF INSURED[:'' @ bsl @ ''s]*'' @ bsl @
     ''(First, Middle, Last'' @ bsl @ '')[:'' @ bsl @ ''s]*([A-Za-z'' @ bsl @ ''s,'' @
     bsl @ ''.]+?)(?:'' @ bsl @ ''n|DATE OF BIRTH)''"

text \<open>\<^verbatim>\<open>r'EFFECTIVE DATE[:\s]*(\d{1,2}[/-]\d{1,2}[/-]\d{2,4})'\<close>\<close>

definition PAT_EFFECTIVE_DATE :: string where
  "PAT_EFFECTIVE_DATE = ''EFFECTIVE DATE[:'' @ bsl @ ''s]*('' @ bsl @ ''d{1,2}[/-]'' @
     bsl @ ''d{1,2}[/-]'' @ bsl @ ''d{2,4})''"

text \<open>\<^verbatim>\<open>r'DATE OF LOSS AND TIME[:\s]*(\d{1,2}[/-]\d{1,2}[/-]\d{2,4})'\<close>\<close>

definition PAT_DATE_OF_LOSS :: string where
  "PAT_DATE_OF_LOSS = ''DATE OF LOSS AND TIME[:'' @ bsl @ ''s]*('' @ bsl @ ''d{1,2}[/-]'' @
     bsl @ ''d{1,2}[/-]'' @ bsl @ ''d{2,4})''"

text \<open>\<^verbatim>\<open>r'(\d{1,2}:\d{2})\s*(AM|PM)'\<close>\<close>

definition PAT_TIME :: string where
  "PAT_TIME = ''('' @ bsl @ ''d{1,2}:'' @ bsl @ ''d{2})'' @ bsl @ ''s*(AM|PM)''"

text \<open>\<^verbatim>\<open>r'STREET:[:\s]*([^\n]+)'\<close>\<close>

definition PAT_STREET :: string where
  "PAT_STREET = ''STREET:[:'' @ bsl @ ''s]*([^'' @ bsl @ ''n]+)''"

text \<open>\<^verbatim>\<open>r'CITY, STATE, ZIP:[:\s]*([^\n]+)'\<close>\<close>

definition PAT_CITY_STATE_ZIP :: string where
  "PAT_CITY_STATE_ZIP = ''CITY, STATE, ZIP:[:'' @ bsl @ ''s]*([^'' @ bsl @ ''n]+)''"

text \<open>\<^verbatim>\<open>r'DESCRIPTION OF ACCIDENT[:\s]*\(ACORD[^\)]*\)[:\s]*([^\n]+(?:\n(?!LOSS|DRIVER|OWNER|VEHICLE)[^\n]+)*)'\<close>\<close>

definition PAT_DESCRIPTION :: string where
  "PAT_DESCRIPTION = ''DESCRIPTION OF ACCIDENT[:'' @ bsl @ ''s]*'' @ bsl @ ''(ACORD[^'' @
     bsl @ '')]*'' @ bsl @ '')[:'' @ bsl @ ''s]*([^'' @ bsl @ ''n]+(?:'' @ bsl @
     ''n(?!LOSS|DRIVER|OWNER|VEHICLE)[^'' @ bsl @ ''n]+)*)''"

text \<open>\<^verbatim>\<open>r'NAME OF INSURED[:\s]*\(First, Middle, Last\)[:\s]*([A-Za-z\s,\.]+?)(?:\n|INSURED)'\<close>\<close>

definition PAT_CLAIMANT :: string where
  "PAT_CLAIMANT = ''NAME OF INSURED[:'' @ bsl @ ''s]*'' @ bsl @ ''(First, Middle, Last'' @
     bsl @ '')[:'' @ bsl @ ''s]*([A-Za-z'' @ bsl @ ''s,'' @ bsl @ ''.]+?)(?:'' @ bsl @
     ''n|INSURED)''"

text \<open>\<^verbatim>\<open>r"DRIVER'S NAME AND ADDRESS[:\s]*\(Check if same as insured\)[:\s]*PHONE[^\n]*\n([A-Za-z\s,\.]+?)(?:\n|PHONE)"\<close>\<close>

definition PAT_DRIVER_NAME :: string where
  "PAT_DRIVER_NAME = ''DRIVER'' @ apo @ ''S NAME AND ADDRESS[:'' @ bsl @ ''s]*'' @ bsl @
     ''(Check if same as insured'' @ bsl @ '')[:'' @ bsl @ ''s]*PHONE[^'' @ bsl @ ''n]*'' @
     bsl @ ''n([A-Za-z'' @ bsl @ ''s,'' @ bsl @ ''.]+?)(?:'' @ bsl @ ''n|PHONE)''"

text \<open>\<^verbatim>\<open>r'PHONE #[:\s]*HOME BUS CELL PRIMARY[:\s]*(\d{3}[-\.\s]?\d{3}[-\.\s]?\d{4})'\<close>\<close>

definition PAT_PHONE :: string where
  "PAT_PHONE = ''PHONE #[:'' @ bsl @ ''s]*HOME BUS CELL PRIMARY[:'' @ bsl @ ''s]*('' @
     bsl @ ''d{3}[-'' @ bsl @ ''.'' @ bsl @ ''s]?'' @ bsl @ ''d{3}[-'' @ bsl @ ''.'' @
     bsl @ ''s]?'' @ bsl @ ''d{4})''"

text \<open>\<^verbatim>\<open>r'E-MAIL ADDRESS:[:\s]*PRIMARY E-MAIL ADDRESS:[:\s]*([^\s\n]+@[^\s\n]+)'\<close>\<close>

definition PAT_EMAIL :: string where
  "PAT_EMAIL = ''E-MAIL ADDRESS:[:'' @ bsl @ ''s]*PRIMARY E-MAIL ADDRESS:[:'' @ bsl @
     ''s]*([^'' @ bsl @ ''s'' @ bsl @ ''n]+@[^'' @ bsl @ ''s'' @ bsl @ ''n]+)''"

text \<open>\<^verbatim>\<open>r'VEH #[:\s]*YEAR[:\s]*(\d{4})'\<close>\<close>

definition PAT_VEHICLE_YEAR :: string where
  "PAT_VEHICLE_YEAR = ''VEH #[:'' @ bsl @ ''s]*YEAR[:'' @ bsl @ ''s]*('' @ bsl @ ''d{4})''"

text \<open>\<^verbatim>\<open>r'MAKE:[:\s]*([A-Z][A-Za-z]+)'\<close>\<close>

definition PAT_VEHICLE_MAKE :: string where
  "PAT_VEHICLE_MAKE = ''MAKE:[:'' @ bsl @ ''s]*([A-Z][A-Za-z]+)''"

text \<open>\<^verbatim>\<open>r'MODEL:[:\s]*([A-Za-z0-9\s]+?)(?:\n|BODY)'\<close>\<close>

definition PAT_VEHICLE_MODEL :: string where
  "PAT_VEHICLE_MODEL = ''MODEL:[:'' @ bsl @ ''s]*([A-Za-z0-9'' @ bsl @ ''s]+?)(?:'' @ bsl @
     ''n|BODY)''"

text \<open>\<^verbatim>\<open>r'V\.I\.N\.:[:\s]*([A-Z0-9]{17})'\<close>\<close>

definition PAT_VIN :: string where
  "PAT_VIN = ''V'' @ bsl @ ''.I'' @ bsl @ ''.N'' @ bsl @ ''.:[:'' @ bsl @
     ''s]*([A-Z0-9]{17})''"

text \<open>\<^verbatim>\<open>r'ESTIMATE AMOUNT:[:\s]*\$?([0-9,]+(?:\.\d{2})?)'\<close>\<close>

definition PAT_ESTIMATE :: string where
  "PAT_ESTIMATE = ''ESTIMATE AMOUNT:[:'' @ bsl @ ''s]*'' @ bsl @ ''$?([0-9,]+(?:'' @ bsl @
     ''.'' @ bsl @ ''d{2})?)''"

text \<open>\<^verbatim>\<open>r'LINE OF BUSINESS[:\s]*([A-Z\s]+?)(?:\n|ACORD)'\<close>\<close>

definition PAT_LINE_OF_BUSINESS :: string where
  "PAT_LINE_OF_BUSINESS = ''LINE OF BUSINESS[:'' @ bsl @ ''s]*([A-Z'' @ bsl @
     ''s]+?)(?:'' @ bsl @ ''n|ACORD)''"

text \<open>\<^verbatim>\<open>r'CARRIER NAIC CODE[:\s]*(\d+)'\<close>\<close>

definition PAT_NAIC :: string where
  "PAT_NAIC = ''CARRIER NAIC CODE[:'' @ bsl @ ''s]*('' @ bsl @ ''d+)''"

section \<open>Extraction into the nested dictionary\<close>

text \<open>The dictionary \<open>extracted\<close> has five fixed sections, each a dictionary.\<close>

record extracted =
  policy_information :: py_dict
  incident_information :: py_dict
  involved_parties :: py_dict
  asset_details :: py_dict
  other_fields :: py_dict

definition extracted_init :: extracted where
  "extracted_init = \<lparr>policy_information = Map.empty, incident_information = Map.empty,
     involved_parties = Map.empty, asset_details = Map.empty, other_fields = Map.empty\<rparr>"

text \<open>An optional string as a value, its truth value, and its rendering in an f-string.\<close>

fun opt_val :: "string option \<Rightarrow> py_val" where
  "opt_val None = PNone"
| "opt_val (Some s) = PStr s"

fun opt_truthy :: "string option \<Rightarrow> bool" where
  "opt_truthy None = False"
| "opt_truthy (Some s) = (s \<noteq> [])"

fun opt_format :: "string option \<Rightarrow> string" where
  "opt_format None = ''None''"
| "opt_format (Some s) = s"

definition bind_err :: "py_error + 'a \<Rightarrow> ('a \<Rightarrow> py_error + 'b) \<Rightarrow> py_error + 'b" where
  "bind_err x f = (case x of Inl e \<Rightarrow> Inl e | Inr v \<Rightarrow> f v)"

text \<open>
  The statements of the \<open>try\<close> block, in the order of the source. Each step computes what
  it needs, which may raise, and then stores into \<open>extracted\<close>, which does not.
\<close>

definition set_policy :: "string \<Rightarrow> py_val \<Rightarrow> extracted \<Rightarrow> extracted" where
  "set_policy k v e = e\<lparr>policy_information := (policy_information e)(k \<mapsto> v)\<rparr>"

definition set_incident :: "string \<Rightarrow> py_val \<Rightarrow> extracted \<Rightarrow> extracted" where
  "set_incident k v e = e\<lparr>incident_information := (incident_information e)(k \<mapsto> v)\<rparr>"

definition set_parties :: "string \<Rightarrow> py_val \<Rightarrow> extracted \<Rightarrow> extracted" where
  "set_parties k v e = e\<lparr>involved_parties := (involved_parties e)(k \<mapsto> v)\<rparr>"

definition set_asset :: "string \<Rightarrow> py_val \<Rightarrow> extracted \<Rightarrow> extracted" where
  "set_asset k v e = e\<lparr>asset_details := (asset_details e)(k \<mapsto> v)\<rparr>"

definition set_other :: "string \<Rightarrow> py_val \<Rightarrow> extracted \<Rightarrow> extracted" where
  "set_other k v e = e\<lparr>other_fields := (other_fields e)(k \<mapsto> v)\<rparr>"

definition step_policy_number :: "re_engine \<Rightarrow> string \<Rightarrow> extracted \<Rightarrow> py_error + extracted" where
  "step_policy_number re_search full_text e =
     bind_err (extract_field re_search full_text PAT_POLICY_NUMBER)
       (\<lambda>v. Inr (set_policy ''policy_number'' (opt_val v) e))"

definition step_policyholder_name :: "re_engine \<Rightarrow> string \<Rightarrow> extracted \<Rightarrow> py_error + extracted" where
  "step_policyholder_name re_search full_text e =
     bind_err (extract_field re_search full_text PAT_POLICYHOLDER_NAME)
       (\<lambda>v. Inr (set_policy ''policyholder_name'' (opt_val v) e))"

definition step_effective_date :: "re_engine \<Rightarrow> string \<Rightarrow> extracted \<Rightarrow> py_error + extracted" where
  "step_effective_date re_search full_text e =
     bind_err (extract_field re_search full_text PAT_EFFECTIVE_DATE)
       (\<lambda>effective_date.
          Inr (if opt_truthy effective_date
               then set_policy ''effective_date'' (opt_val effective_date) e else e))"

definition step_date_of_loss :: "re_engine \<Rightarrow> string \<Rightarrow> extracted \<Rightarrow> py_error + extracted" where
  "step_date_of_loss re_search full_text e =
     bind_err (extract_field re_search full_text PAT_DATE_OF_LOSS)
       (\<lambda>v. Inr (set_incident ''date_of_loss'' (opt_val v) e))"

definition step_time :: "re_engine \<Rightarrow> string \<Rightarrow> extracted \<Rightarrow> py_error + extracted" where
  "step_time re_search full_text e =
     (case re_search PAT_TIME full_text {IGNORECASE} of
        None \<Rightarrow> Inr e
      | Some time_match \<Rightarrow>
          bind_err (match_group time_match 1) (\<lambda>g1.
          bind_err (match_group time_match 2) (\<lambda>g2.
            Inr (set_incident ''time'' (PStr (opt_format g1 @ '' '' @ opt_format g2)) e))))"

definition step_location :: "re_engine \<Rightarrow> string \<Rightarrow> extracted \<Rightarrow> py_error + extracted" where
  "step_location re_search full_text e =
     bind_err (extract_field re_search full_text PAT_STREET) (\<lambda>street.
     bind_err (extract_field re_search full_text PAT_CITY_STATE_ZIP) (\<lambda>city_state_zip.
       let location_parts = [];
           location_parts =
             (if opt_truthy street \<and> py_strip (opt_format street) \<noteq> []
              then location_parts @ [py_strip (opt_format street)] else location_parts);
           location_parts =
             (if opt_truthy city_state_zip \<and> py_strip (opt_format city_state_zip) \<noteq> []
              then location_parts @ [py_strip (opt_format city_state_zip)] else location_parts)
       in Inr (set_incident ''location''
                 (if location_parts \<noteq> [] then PStr (py_join '', '' location_parts) else PNone) e)))"

definition step_description :: "re_engine \<Rightarrow> string \<Rightarrow> extracted \<Rightarrow> py_error + extracted" where
  "step_description re_search full_text e =
     bind_err (extract_field re_search full_text PAT_DESCRIPTION)
       (\<lambda>desc. Inr (set_incident ''description'' (opt_val desc) e))"

definition step_claimant :: "re_engine \<Rightarrow> string \<Rightarrow> extracted \<Rightarrow> py_error + extracted" where
  "step_claimant re_search full_text e =
     bind_err (extract_field re_search full_text PAT_CLAIMANT)
       (\<lambda>claimant. Inr (set_parties ''claimant'' (opt_val claimant) e))"

definition step_driver_name :: "re_engine \<Rightarrow> string \<Rightarrow> extracted \<Rightarrow> py_error + extracted" where
  "step_driver_name re_search full_text e =
     bind_err (extract_field re_search full_text PAT_DRIVER_NAME)
       (\<lambda>driver_name. Inr (set_parties ''driver_name'' (opt_val driver_name) e))"

definition step_phone :: "re_engine \<Rightarrow> string \<Rightarrow> extracted \<Rightarrow> py_error + extracted" where
  "step_phone re_search full_text e =
     (case re_search PAT_PHONE full_text {} of
        None \<Rightarrow> Inr e
      | Some phone_match \<Rightarrow>
          bind_err (match_group phone_match 1)
            (\<lambda>g1. Inr (set_parties ''contact_phone'' (opt_val g1) e)))"

definition step_email :: "re_engine \<Rightarrow> string \<Rightarrow> extracted \<Rightarrow> py_error + extracted" where
  "step_email re_search full_text e =
     bind_err (extract_field re_search full_text PAT_EMAIL)
       (\<lambda>email. Inr (set_parties ''contact_email'' (opt_val email) e))"

text \<open>\<open>filter(None, xs)\<close> keeps the elements that are true.\<close>

definition filter_truthy :: "string option list \<Rightarrow> string list" where
  "filter_truthy xs = map opt_format (filter opt_truthy xs)"

definition step_vehicle :: "re_engine \<Rightarrow> string \<Rightarrow> extracted \<Rightarrow> py_error + extracted" where
  "step_vehicle re_search full_text e =
     bind_err (extract_field re_search full_text PAT_VEHICLE_YEAR) (\<lambda>vehicle_year.
     bind_err (extract_field re_search full_text PAT_VEHICLE_MAKE) (\<lambda>vehicle_make.
     bind_err (extract_field re_search full_text PAT_VEHICLE_MODEL) (\<lambda>vehicle_model.
     bind_err (extract_field re_search full_text PAT_VIN) (\<lambda>vin.
       let e = set_asset ''asset_type'' (PStr ''vehicle'') e;
           e = (if opt_truthy vehicle_year \<or> opt_truthy vehicle_make \<or> opt_truthy vehicle_model
                then set_asset ''vehicle_description''
                       (PStr (py_join '' '' (filter_truthy [vehicle_year, vehicle_make, vehicle_model]))) e
                else e)
       in Inr (set_asset ''asset_id'' (opt_val vin) e)))))"

text \<open>\<open>estimate.replace(',', '')\<close>.\<close>

definition remove_commas :: "string \<Rightarrow> string" where
  "remove_commas s = filter (\<lambda>c. c \<noteq> CHR '','') s"

definition step_estimate ::
  "re_engine \<Rightarrow> float_parser \<Rightarrow> string \<Rightarrow> extracted \<Rightarrow> py_error + extracted" where
  "step_estimate re_search py_float_of full_text e =
     bind_err (extract_field re_search full_text PAT_ESTIMATE) (\<lambda>estimate.
       if opt_truthy estimate then
         (let estimate_clean = remove_commas (opt_format estimate) in
          case py_float_of estimate_clean of
            Some x \<Rightarrow> Inr (set_asset ''estimated_damage'' (PFloat x) e)
          | None \<Rightarrow> Inr (set_asset ''estimated_damage'' PNone e))
       else Inr e)"

definition step_claim_type :: "string \<Rightarrow> extracted \<Rightarrow> py_error + extracted" where
  "step_claim_type full_text e =
     (let claim_type = determine_claim_type full_text
      in Inr (set_other ''claim_type'' (PStr claim_type) e))"

definition step_line_of_business :: "re_engine \<Rightarrow> string \<Rightarrow> extracted \<Rightarrow> py_error + extracted" where
  "step_line_of_business re_search full_text e =
     bind_err (extract_field re_search full_text PAT_LINE_OF_BUSINESS)
       (\<lambda>lob. Inr (set_other ''line_of_business'' (opt_val lob) e))"

definition step_naic :: "re_engine \<Rightarrow> string \<Rightarrow> extracted \<Rightarrow> py_error + extracted" where
  "step_naic re_search full_text e =
     bind_err (extract_field re_search full_text PAT_NAIC)
       (\<lambda>naic. Inr (set_other ''naic_code'' (opt_val naic) e))"

definition extraction_steps ::
  "re_engine \<Rightarrow> float_parser \<Rightarrow> string \<Rightarrow> (extracted \<Rightarrow> py_error + extracted) list" where
  "extraction_steps re_search py_float_of full_text =
     [step_policy_number re_search full_text,
      step_policyholder_name re_search full_text,
      step_effective_date re_search full_text,
      step_date_of_loss re_search full_text,
      step_time re_search full_text,
      step_location re_search full_text,
      step_description re_search full_text,
      step_claimant re_search full_text,
      step_driver_name re_search full_text,
      step_phone re_search full_text,
      step_email re_search full_text,
      step_vehicle re_search full_text,
      step_estimate re_search py_float_of full_text,
      step_claim_type full_text,
      step_line_of_business re_search full_text,
      step_naic re_search full_text]"

text \<open>
  The \<open>try\<close> block: the first step that raises ends it, the handler prints the exception,
  and the function returns \<open>extracted\<close> as filled so far. The second component is the
  exception that was printed, if any.
\<close>

fun run_steps ::
  "(extracted \<Rightarrow> py_error + extracted) list \<Rightarrow> extracted \<Rightarrow> extracted \<times> py_error option" where
  "run_steps [] e = (e, None)"
| "run_steps (step # steps) e =
     (case step e of Inl err \<Rightarrow> (e, Some err) | Inr e' \<Rightarrow> run_steps steps e')"

definition extract_from_text ::
  "re_engine \<Rightarrow> float_parser \<Rightarrow> string \<Rightarrow> extracted \<times> py_error option" where
  "extract_from_text re_search py_float_of full_text =
     run_steps (extraction_steps re_search py_float_of full_text) extracted_init"

text \<open>
  Reading the document is outside the program: the input is the list of the texts of the
  pages, or the exception that reading raised, which the same handler catches.
\<close>

definition pages_text :: "string list \<Rightarrow> string" where
  "pages_text pages = foldl (\<lambda>full_text page. full_text @ page @ [CHR 0x0A]) [] pages"

definition extract_from_pdf ::
  "re_engine \<Rightarrow> float_parser \<Rightarrow> py_error + string list \<Rightarrow> extracted" where
  "extract_from_pdf re_search py_float_of pdf =
     (case pdf of
        Inl err \<Rightarrow> extracted_init
      | Inr pages \<Rightarrow> fst (extract_from_text re_search py_float_of (pages_text pages)))"

section \<open>Flattening\<close>

definition flatten_extracted_data :: "extracted \<Rightarrow> py_dict" where
  "flatten_extracted_data e = Map.empty
     (''policy_number'' \<mapsto> dict_get (policy_information e) ''policy_number'',
      ''policyholder_name'' \<mapsto> dict_get (policy_information e) ''policyholder_name'',
      ''effective_date'' \<mapsto> dict_get (policy_information e) ''effective_date'',
      ''date_of_loss'' \<mapsto> dict_get (incident_information e) ''date_of_loss'',
      ''time_of_loss'' \<mapsto> dict_get (incident_information e) ''time'',
      ''location_of_loss'' \<mapsto> dict_get (incident_information e) ''location'',
      ''description_of_accident'' \<mapsto> dict_get (incident_information e) ''description'',
      ''claimant'' \<mapsto> dict_get (involved_parties e) ''claimant'',
      ''driver_name'' \<mapsto> dict_get (involved_parties e) ''driver_name'',
      ''contact_phone'' \<mapsto> dict_get (involved_parties e) ''contact_phone'',
      ''contact_email'' \<mapsto> dict_get (involved_parties e) ''contact_email'',
      ''asset_type'' \<mapsto> dict_get (asset_details e) ''asset_type'',
      ''asset_id'' \<mapsto> dict_get (asset_details e) ''asset_id'',
      ''vehicle_description'' \<mapsto> dict_get (asset_details e) ''vehicle_description'',
      ''estimated_damage'' \<mapsto> dict_get (asset_details e) ''estimated_damage'',
      ''claim_type'' \<mapsto> dict_get (other_fields e) ''claim_type'',
      ''line_of_business'' \<mapsto> dict_get (other_fields e) ''line_of_business'',
      ''naic_code'' \<mapsto> dict_get (other_fields e) ''naic_code'')"

text \<open>The keys of the flattened record, in the order of the assignments.\<close>

definition FLAT_KEYS :: "string list" where
  "FLAT_KEYS = [''policy_number'', ''policyholder_name'', ''effective_date'', ''date_of_loss'',
     ''time_of_loss'', ''location_of_loss'', ''description_of_accident'', ''claimant'',
     ''driver_name'', ''contact_phone'', ''contact_email'', ''asset_type'', ''asset_id'',
     ''vehicle_description'', ''estimated_damage'', ''claim_type'', ''line_of_business'',
     ''naic_code'']"

section \<open>The completeness validator\<close>

text \<open>The loop of \<open>validate_fields\<close>: \<open>missing\<close> is the list built so far.\<close>

fun validate_loop :: "py_dict \<Rightarrow> string list \<Rightarrow> string list \<Rightarrow> string list" where
  "validate_loop flattened_data [] missing = missing"
| "validate_loop flattened_data (field # rest) missing =
     validate_loop flattened_data rest
       (if \<not> truthy (dict_get flattened_data field) then missing @ [field] else missing)"

definition validate_fields :: "py_dict \<Rightarrow> string list" where
  "validate_fields flattened_data = validate_loop flattened_data MANDATORY_FIELDS []"

section \<open>The routing engine\<close>

definition route_claim :: "py_dict \<Rightarrow> string list \<Rightarrow> py_error + (string \<times> string)" where
  "route_claim flattened_data missing_fields =
     (if missing_fields \<noteq> [] then
        Inr (''Manual Review'',
             py_join ''; '' [''Missing mandatory fields: '' @ py_join '', '' missing_fields])
      else
        case method_lower (dict_get_default flattened_data ''description_of_accident'' (PStr ''''))
        of Inl e \<Rightarrow> Inl e
         | Inr description \<Rightarrow>
        if list_ex (\<lambda>keyword. py_in keyword description) FRAUD_KEYWORDS then
          Inr (''Investigation Queue'',
               py_join ''; '' [''Description contains potential fraud indicators''])
        else if dict_get flattened_data ''claim_type'' = PStr ''injury'' then
          Inr (''Specialist Queue'',
               py_join ''; '' [''Claim involves injury and requires specialist review''])
        else
          (case dict_get flattened_data ''estimated_damage'' of
            PNone \<Rightarrow>
              Inr (''Manual Review'',
                   py_join ''; '' [''Estimated damage amount is missing or invalid''])
          | PStr s \<Rightarrow> Inl TypeError
          | PFloat estimated_damage \<Rightarrow>
              if float_lt_int estimated_damage FAST_TRACK_THRESHOLD then
                Inr (''Fast-Track'',
                     py_join ''; '' [''Estimated damage ($'' @ fmt_float_comma_2f estimated_damage
                       @ '') is below fast-track threshold ($''
                       @ fmt_int_comma FAST_TRACK_THRESHOLD @ '')''])
              else
                Inr (''Standard Processing'',
                     py_join ''; '' [''Estimated damage ($'' @ fmt_float_comma_2f estimated_damage
                       @ '') exceeds fast-track threshold ($''
                       @ fmt_int_comma FAST_TRACK_THRESHOLD @ '')''])))"

text \<open>The five route labels that the source uses.\<close>

definition ROUTES :: "string list" where
  "ROUTES = [''Manual Review'', ''Investigation Queue'', ''Specialist Queue'',
     ''Fast-Track'', ''Standard Processing'']"

section \<open>The pipeline\<close>

record result =
  extractedFields :: py_dict
  missingFields :: "string list"
  recommendedRoute :: string
  reasoning :: string

definition process_claim ::
  "re_engine \<Rightarrow> float_parser \<Rightarrow> py_error + string list \<Rightarrow> py_error + result" where
  "process_claim re_search py_float_of pdf =
     (let extracted = extract_from_pdf re_search py_float_of pdf;
          flattened = flatten_extracted_data extracted;
          missing = validate_fields flattened
      in bind_err (route_claim flattened missing) (\<lambda>(route, reasoning).
           Inr \<lparr>extractedFields = flattened, missingFields = missing,
                recommendedRoute = route, reasoning = reasoning\<rparr>))"

section \<open>What the specification says, in its own words\<close>

text \<open>
  Normalisation of an extracted value: runs of whitespace collapsed to single spaces,
  leading and trailing whitespace trimmed.
\<close>

fun collapse_ws :: "string \<Rightarrow> string" where
  "collapse_ws [] = []"
| "collapse_ws [c] = [if py_isspace c then CHR '' '' else c]"
| "collapse_ws (c # d # cs) =
     (if py_isspace c \<and> py_isspace d then collapse_ws (d # cs)
      else (if py_isspace c then CHR '' '' else c) # collapse_ws (d # cs))"

definition spec_normalize :: "string \<Rightarrow> string" where
  "spec_normalize s = py_strip (collapse_ws s)"

text \<open>
  The extractor of the specification: absent when there is no match or the captured value
  normalises to the empty string, else the normalised first group.
\<close>

definition spec_extract :: "re_engine \<Rightarrow> string \<Rightarrow> string \<Rightarrow> string option" where
  "spec_extract re_search text pattern =
     (case re_search pattern text {IGNORECASE, MULTILINE} of
        Some (Some g # rest) \<Rightarrow> (if spec_normalize g = [] then None else Some (spec_normalize g))
      | _ \<Rightarrow> None)"

text \<open>
  What the library guarantees for the patterns of this program. In each of them every group
  is mandatory, so a match gives a value to each group: one for the patterns read through
  the field extractor and for the phone pattern, two for the time pattern.
\<close>

definition EXTRACT_FIELD_PATTERNS :: "string list" where
  "EXTRACT_FIELD_PATTERNS = [PAT_POLICY_NUMBER, PAT_POLICYHOLDER_NAME, PAT_EFFECTIVE_DATE,
     PAT_DATE_OF_LOSS, PAT_STREET, PAT_CITY_STATE_ZIP, PAT_DESCRIPTION, PAT_CLAIMANT,
     PAT_DRIVER_NAME, PAT_EMAIL, PAT_VEHICLE_YEAR, PAT_VEHICLE_MAKE, PAT_VEHICLE_MODEL,
     PAT_VIN, PAT_ESTIMATE, PAT_LINE_OF_BUSINESS, PAT_NAIC]"

fun one_group :: "re_match option \<Rightarrow> bool" where
  "one_group None = True"
| "one_group (Some [Some g]) = True"
| "one_group (Some m) = False"

fun two_groups :: "re_match option \<Rightarrow> bool" where
  "two_groups None = True"
| "two_groups (Some [Some g1, Some g2]) = True"
| "two_groups (Some m) = False"

definition engine_ok :: "re_engine \<Rightarrow> string \<Rightarrow> bool" where
  "engine_ok re_search text =
     (list_all (\<lambda>p. one_group (re_search p text {IGNORECASE, MULTILINE})) EXTRACT_FIELD_PATTERNS
      \<and> two_groups (re_search PAT_TIME text {IGNORECASE})
      \<and> one_group (re_search PAT_PHONE text {}))"

text \<open>The record of the specification, field by field.\<close>

definition spec_time :: "re_engine \<Rightarrow> string \<Rightarrow> py_val" where
  "spec_time re_search text =
     (case re_search PAT_TIME text {IGNORECASE} of
        Some [Some hm, Some ampm] \<Rightarrow> PStr (hm @ '' '' @ ampm)
      | _ \<Rightarrow> PNone)"

definition spec_location :: "re_engine \<Rightarrow> string \<Rightarrow> py_val" where
  "spec_location re_search text =
     (case (spec_extract re_search text PAT_STREET, spec_extract re_search text PAT_CITY_STATE_ZIP) of
        (Some street, Some city) \<Rightarrow> PStr (street @ '', '' @ city)
      | (Some street, None) \<Rightarrow> PStr street
      | (None, Some city) \<Rightarrow> PStr city
      | (None, None) \<Rightarrow> PNone)"

definition spec_phone :: "re_engine \<Rightarrow> string \<Rightarrow> py_val" where
  "spec_phone re_search text =
     (case re_search PAT_PHONE text {} of Some [Some g] \<Rightarrow> PStr g | _ \<Rightarrow> PNone)"

fun present_parts :: "string option list \<Rightarrow> string list" where
  "present_parts [] = []"
| "present_parts (None # xs) = present_parts xs"
| "present_parts (Some s # xs) = s # present_parts xs"

definition spec_vehicle_description :: "re_engine \<Rightarrow> string \<Rightarrow> py_val" where
  "spec_vehicle_description re_search text =
     (let parts = present_parts [spec_extract re_search text PAT_VEHICLE_YEAR,
                    spec_extract re_search text PAT_VEHICLE_MAKE,
                    spec_extract re_search text PAT_VEHICLE_MODEL]
      in if parts = [] then PNone else PStr (py_join '' '' parts))"

definition spec_estimated_damage :: "re_engine \<Rightarrow> float_parser \<Rightarrow> string \<Rightarrow> py_val" where
  "spec_estimated_damage re_search py_float_of text =
     (case spec_extract re_search text PAT_ESTIMATE of
        None \<Rightarrow> PNone
      | Some estimate \<Rightarrow>
          (case py_float_of (remove_commas estimate) of None \<Rightarrow> PNone | Some x \<Rightarrow> PFloat x))"

definition spec_assemble :: "re_engine \<Rightarrow> float_parser \<Rightarrow> string \<Rightarrow> py_dict" where
  "spec_assemble re_search py_float_of text = Map.empty
     (''policy_number'' \<mapsto> opt_val (spec_extract re_search text PAT_POLICY_NUMBER),
      ''policyholder_name'' \<mapsto> opt_val (spec_extract re_search text PAT_POLICYHOLDER_NAME),
      ''effective_date'' \<mapsto> opt_val (spec_extract re_search text PAT_EFFECTIVE_DATE),
      ''date_of_loss'' \<mapsto> opt_val (spec_extract re_search text PAT_DATE_OF_LOSS),
      ''time_of_loss'' \<mapsto> spec_time re_search text,
      ''location_of_loss'' \<mapsto> spec_location re_search text,
      ''description_of_accident'' \<mapsto> opt_val (spec_extract re_search text PAT_DESCRIPTION),
      ''claimant'' \<mapsto> opt_val (spec_extract re_search text PAT_CLAIMANT),
      ''driver_name'' \<mapsto> opt_val (spec_extract re_search text PAT_DRIVER_NAME),
      ''contact_phone'' \<mapsto> spec_phone re_search text,
      ''contact_email'' \<mapsto> opt_val (spec_extract re_search text PAT_EMAIL),
      ''asset_type'' \<mapsto> PStr ''vehicle'',
      ''asset_id'' \<mapsto> opt_val (spec_extract re_search text PAT_VIN),
      ''vehicle_description'' \<mapsto> spec_vehicle_description re_search text,
      ''estimated_damage'' \<mapsto> spec_estimated_damage re_search py_float_of text,
      ''claim_type'' \<mapsto> PStr (determine_claim_type text),
      ''line_of_business'' \<mapsto> opt_val (spec_extract re_search text PAT_LINE_OF_BUSINESS),
      ''naic_code'' \<mapsto> opt_val (spec_extract re_search text PAT_NAIC))"

text \<open>A field is missing for the validator of the specification when its value is absent
  or the empty string.\<close>

definition absent_or_empty :: "py_dict \<Rightarrow> string \<Rightarrow> bool" where
  "absent_or_empty d k = (d k = None \<or> d k = Some PNone \<or> d k = Some (PStr []))"

text \<open>The fields of a record of the specification hold strings or nothing, the estimated
  damage a number or nothing.\<close>

definition string_or_none :: "py_dict \<Rightarrow> string \<Rightarrow> bool" where
  "string_or_none d k = (case d k of None \<Rightarrow> True | Some PNone \<Rightarrow> True | Some (PStr s) \<Rightarrow> True
     | Some (PFloat x) \<Rightarrow> False)"

section \<open>Sample documents\<close>

text \<open>
  Two small documents, with what \<open>re.search\<close> returns on them for the patterns of the
  program and what \<open>float\<close> returns on the cleaned estimates that occur. The tables say
  nothing about other texts and strings.
\<close>

definition sample_text :: string where
  "sample_text = ''POLICY NUMBER: ABC123'' @ [CHR 0x0A] @ ''STREET: 12  Main St '' @ [CHR 0x0A]
     @ ''ESTIMATE AMOUNT: $10,000.00'' @ [CHR 0x0A]"

definition sample_text_bad :: string where
  "sample_text_bad = ''POLICY NUMBER: ABC123'' @ [CHR 0x0A] @ ''ESTIMATE AMOUNT: ,'' @ [CHR 0x0A]"

definition sample_search :: re_engine where
  "sample_search pattern text flags =
     (if text = sample_text then
        (if pattern = PAT_POLICY_NUMBER then Some [Some ''ABC123'']
         else if pattern = PAT_STREET then Some [Some ''12  Main St '']
         else if pattern = PAT_ESTIMATE then Some [Some ''10,000.00'']
         else None)
      else if text = sample_text_bad then
        (if pattern = PAT_POLICY_NUMBER then Some [Some ''ABC123'']
         else if pattern = PAT_ESTIMATE then Some [Some '','']
         else None)
      else None)"

definition sample_float_of :: float_parser where
  "sample_float_of s = (if s = ''10000.00'' then Some (Finite 10000) else None)"

text \<open>
  A pattern with one capturing group that is optional: \<^verbatim>\<open>r'A(b)?'\<close>. On the text
  \<^verbatim>\<open>A\<close> the search finds a match in which the group took no part, so that
  \<open>m.group(1)\<close> is \<open>None\<close>. The table says nothing about other patterns and texts.
\<close>

definition PAT_OPTIONAL_GROUP :: string where
  "PAT_OPTIONAL_GROUP = ''A(b)?''"

definition optional_group_search :: re_engine where
  "optional_group_search pattern text flags =
     (if pattern = PAT_OPTIONAL_GROUP \<and> text = ''A'' then Some [None] else None)"

text \<open>
  A record with all eighteen keys whose accident description is absent, as the flattening
  produces it when the description pattern does not match.
\<close>

definition record_without_description :: py_dict where
  "record_without_description = Map.empty
     (''policy_number'' \<mapsto> PStr ''ABC123'',
      ''policyholder_name'' \<mapsto> PStr ''Jane Doe'',
      ''effective_date'' \<mapsto> PNone,
      ''date_of_loss'' \<mapsto> PStr ''01/02/2024'',
      ''time_of_loss'' \<mapsto> PNone,
      ''location_of_loss'' \<mapsto> PStr ''12 Main St'',
      ''description_of_accident'' \<mapsto> PNone,
      ''claimant'' \<mapsto> PStr ''Jane Doe'',
      ''driver_name'' \<mapsto> PNone,
      ''contact_phone'' \<mapsto> PNone,
      ''contact_email'' \<mapsto> PNone,
      ''asset_type'' \<mapsto> PStr ''vehicle'',
      ''asset_id'' \<mapsto> PNone,
      ''vehicle_description'' \<mapsto> PNone,
      ''estimated_damage'' \<mapsto> PFloat (Finite 10000),
      ''claim_type'' \<mapsto> PStr ''auto'',
      ''line_of_business'' \<mapsto> PNone,
      ''naic_code'' \<mapsto> PNone)"

section \<open>Auxiliary definitions\<close>

text \<open>\<open>s.rstrip()\<close>, the right half of \<open>strip\<close>.\<close>

definition rstrip :: "string \<Rightarrow> string" where
  "rstrip s = rev (dropWhile py_isspace (rev s))"

text \<open>A store into a dictionary that happens only under a condition.\<close>

definition put_if :: "bool \<Rightarrow> string \<Rightarrow> py_val \<Rightarrow> py_dict \<Rightarrow> py_dict" where
  "put_if c k v m = (if c then m(k \<mapsto> v) else m)"

text \<open>The patterns whose search results a field of the flattened record is computed from.\<close>

definition field_patterns :: "string \<Rightarrow> string list" where
  "field_patterns k =
     (if k = ''policy_number'' then [PAT_POLICY_NUMBER]
      else if k = ''policyholder_name'' then [PAT_POLICYHOLDER_NAME]
      else if k = ''effective_date'' then [PAT_EFFECTIVE_DATE]
      else if k = ''date_of_loss'' then [PAT_DATE_OF_LOSS]
      else if k = ''time_of_loss'' then [PAT_TIME]
      else if k = ''location_of_loss'' then [PAT_STREET, PAT_CITY_STATE_ZIP]
      else if k = ''description_of_accident'' then [PAT_DESCRIPTION]
      else if k = ''claimant'' then [PAT_CLAIMANT]
      else if k = ''driver_name'' then [PAT_DRIVER_NAME]
      else if k = ''contact_phone'' then [PAT_PHONE]
      else if k = ''contact_email'' then [PAT_EMAIL]
      else if k = ''asset_id'' then [PAT_VIN]
      else if k = ''vehicle_description'' then [PAT_VEHICLE_YEAR, PAT_VEHICLE_MAKE, PAT_VEHICLE_MODEL]
      else if k = ''estimated_damage'' then [PAT_ESTIMATE]
      else if k = ''line_of_business'' then [PAT_LINE_OF_BUSINESS]
      else if k = ''naic_code'' then [PAT_NAIC]
      else [])"

section \<open>Whitespace normalisation\<close>


lemma isspace_space [simp]: "py_isspace (CHR '' '')"
  by (simp add: py_isspace_def)

lemma rstrip_Cons: "rstrip (c # s) = (if py_isspace c \<and> rstrip s = [] then [] else c # rstrip s)"
  by (auto simp: rstrip_def dropWhile_append)

lemma py_strip_space: "py_isspace c \<Longrightarrow> py_strip (c # s) = py_strip s"
  by (simp add: py_strip_def)

lemma py_strip_nonspace: "\<not> py_isspace c \<Longrightarrow> py_strip (c # s) = c # rstrip s"
  by (simp add: py_strip_def rstrip_def dropWhile_append)

lemma split_from_word:
  "cur \<noteq> [] \<Longrightarrow> split_from cur s =
     (rev cur @ takeWhile (\<lambda>c. \<not> py_isspace c) s) # split_from [] (dropWhile (\<lambda>c. \<not> py_isspace c) s)"
  by (induction s arbitrary: cur) auto

lemma split_from_snoc:
  "cur \<noteq> [] \<Longrightarrow> split_from (cur @ [c]) s =
     (c # hd (split_from cur s)) # tl (split_from cur s)"
  by (simp add: split_from_word)

lemma split_from_nonempty: "cur \<noteq> [] \<Longrightarrow> split_from cur s \<noteq> []"
  by (simp add: split_from_word)

lemma py_join_Cons: "py_join sep (x # xs) = (if xs = [] then x else x @ sep @ py_join sep xs)"
  by (cases xs) auto

lemma rstrip_collapse:
  "rstrip (collapse_ws s) =
     (if s \<noteq> [] \<and> py_isspace (hd s) \<and> py_split s \<noteq> [] then CHR '' '' # py_join '' '' (py_split s)
      else py_join '' '' (py_split s))"
proof (induction s rule: collapse_ws.induct)
  case 1
  then show ?case by (simp add: rstrip_def py_split_def)
next
  case (2 c)
  then show ?case by (simp add: rstrip_def py_split_def)
next
  case (3 c d cs)
  show ?case
  proof (cases "py_isspace c")
    case True
    show ?thesis
    proof (cases "py_isspace d")
      case d: True
      with True 3 show ?thesis by (simp add: py_split_def)
    next
      case d: False
      have ne: "split_from [d] cs \<noteq> []" by (rule split_from_nonempty) simp
      have r: "rstrip (collapse_ws (d # cs)) = py_join '' '' (split_from [d] cs)"
        using 3 d by (simp add: py_split_def)
      have "rstrip (collapse_ws (d # cs)) \<noteq> []"
        using d by (cases cs) (simp_all add: rstrip_Cons)
      with True d r ne show ?thesis by (simp add: py_split_def rstrip_Cons)
    qed
  next
    case False
    have c: "collapse_ws (c # d # cs) = c # collapse_ws (d # cs)" using False by simp
    show ?thesis
    proof (cases "py_isspace d")
      case d: True
      with False 3 c show ?thesis by (simp add: py_split_def rstrip_Cons py_join_Cons)
    next
      case d: False
      have s: "split_from [d, c] cs = (c # hd (split_from [d] cs)) # tl (split_from [d] cs)"
        using split_from_snoc [of "[d]" c cs] by simp
      have ne: "split_from [d] cs \<noteq> []" by (rule split_from_nonempty) simp
      then obtain w ws where w: "split_from [d] cs = w # ws" by (cases "split_from [d] cs") auto
      from False d 3 c s w show ?thesis
        by (simp add: py_split_def rstrip_Cons py_join_Cons)
    qed
  qed
qed

lemma split_lstrip: "split_from [] (dropWhile py_isspace s) = split_from [] s"
  by (induction s) auto

lemma split_from_rspace:
  "py_isspace c \<Longrightarrow> split_from cur (s @ [c]) = split_from cur s"
  by (induction s arbitrary: cur) auto

lemma split_rstrip: "split_from cur (rstrip s) = split_from cur s"
proof (induction s arbitrary: cur rule: rev_induct)
  case Nil
  then show ?case by (simp add: rstrip_def)
next
  case (snoc x xs)
  then show ?case by (cases "py_isspace x") (simp_all add: rstrip_def split_from_rspace)
qed

lemma py_split_strip: "py_split (py_strip s) = py_split s"
  using split_rstrip [of "[]" "dropWhile py_isspace s"]
  by (simp add: py_split_def py_strip_def rstrip_def split_lstrip)

lemma strip_collapse:
  "py_strip (collapse_ws s) = py_join '' '' (py_split s)"
proof (induction s rule: collapse_ws.induct)
  case 1
  then show ?case by (simp add: py_strip_def py_split_def)
next
  case (2 c)
  then show ?case by (simp add: py_strip_def py_split_def)
next
  case (3 c d cs)
  show ?case
  proof (cases "py_isspace c")
    case True
    with 3 show ?thesis by (cases "py_isspace d") (simp_all add: py_strip_space py_split_def)
  next
    case False
    then have "py_strip (collapse_ws (c # d # cs)) = rstrip (collapse_ws (c # d # cs))"
      by (simp add: py_strip_nonspace rstrip_Cons)
    with False show ?thesis by (simp only: rstrip_collapse) simp
  qed
qed

lemma normalize_refines: "py_join '' '' (py_split (py_strip g)) = spec_normalize g"
  by (simp add: spec_normalize_def strip_collapse py_split_strip)

lemma rstrip_Nil [simp]: "rstrip [] = []"
  by (simp add: rstrip_def)

lemma lstrip_rstrip: "dropWhile py_isspace (rstrip t) = rstrip (dropWhile py_isspace t)"
  by (induction t) (auto simp: rstrip_Cons)

lemma rstrip_idem: "rstrip (rstrip s) = rstrip s"
  by (simp add: rstrip_def)

lemma strip_idem: "py_strip (py_strip s) = py_strip s"
proof -
  have "py_strip s = rstrip (dropWhile py_isspace s)" for s
    by (simp add: py_strip_def rstrip_def)
  then show ?thesis by (simp add: lstrip_rstrip rstrip_idem)
qed

lemma strip_normalize: "py_strip (spec_normalize g) = spec_normalize g"
  by (simp add: spec_normalize_def strip_idem)

lemma extract_field_ok:
  "one_group (re_search p text {IGNORECASE, MULTILINE}) \<Longrightarrow>
     extract_field re_search text p = Inr (spec_extract re_search text p)"
  by (erule one_group.elims)
     (simp_all add: extract_field_def spec_extract_def match_group_def normalize_refines)

lemma spec_extract_truthy: "opt_truthy (spec_extract re_search text p) = (spec_extract re_search text p \<noteq> None)"
  by (auto simp: spec_extract_def split: option.splits list.splits)

section \<open>The extraction under the guarantees of the library\<close>


lemma dict_get_put_if:
  "dict_get (put_if c k v m) k' = (if k' = k \<and> c then v else dict_get m k')"
  by (simp add: put_if_def dict_get_def)

lemma dict_get_upd: "dict_get (m(k \<mapsto> v)) k' = (if k' = k then v else dict_get m k')"
  by (simp add: dict_get_def)

lemma dict_get_empty: "dict_get Map.empty k = PNone"
  by (simp add: dict_get_def)

lemma engine_ok_extract:
  "engine_ok re_search text \<Longrightarrow> p \<in> set EXTRACT_FIELD_PATTERNS \<Longrightarrow>
     extract_field re_search text p = Inr (spec_extract re_search text p)"
  by (rule extract_field_ok) (simp add: engine_ok_def list_all_iff)

lemma engine_ok_time: "engine_ok re_search text \<Longrightarrow> two_groups (re_search PAT_TIME text {IGNORECASE})"
  by (simp add: engine_ok_def)

lemma engine_ok_phone: "engine_ok re_search text \<Longrightarrow> one_group (re_search PAT_PHONE text {})"
  by (simp add: engine_ok_def)

lemma spec_extract_Some:
  "spec_extract re_search text p = Some s \<Longrightarrow> s \<noteq> [] \<and> py_strip s = s"
  by (auto simp: spec_extract_def strip_normalize split: option.splits list.splits if_splits)

lemma in_patterns:
  "PAT_POLICY_NUMBER \<in> set EXTRACT_FIELD_PATTERNS"
  "PAT_POLICYHOLDER_NAME \<in> set EXTRACT_FIELD_PATTERNS"
  "PAT_EFFECTIVE_DATE \<in> set EXTRACT_FIELD_PATTERNS"
  "PAT_DATE_OF_LOSS \<in> set EXTRACT_FIELD_PATTERNS"
  "PAT_STREET \<in> set EXTRACT_FIELD_PATTERNS"
  "PAT_CITY_STATE_ZIP \<in> set EXTRACT_FIELD_PATTERNS"
  "PAT_DESCRIPTION \<in> set EXTRACT_FIELD_PATTERNS"
  "PAT_CLAIMANT \<in> set EXTRACT_FIELD_PATTERNS"
  "PAT_DRIVER_NAME \<in> set EXTRACT_FIELD_PATTERNS"
  "PAT_EMAIL \<in> set EXTRACT_FIELD_PATTERNS"
  "PAT_VEHICLE_YEAR \<in> set EXTRACT_FIELD_PATTERNS"
  "PAT_VEHICLE_MAKE \<in> set EXTRACT_FIELD_PATTERNS"
  "PAT_VEHICLE_MODEL \<in> set EXTRACT_FIELD_PATTERNS"
  "PAT_VIN \<in> set EXTRACT_FIELD_PATTERNS"
  "PAT_ESTIMATE \<in> set EXTRACT_FIELD_PATTERNS"
  "PAT_LINE_OF_BUSINESS \<in> set EXTRACT_FIELD_PATTERNS"
  "PAT_NAIC \<in> set EXTRACT_FIELD_PATTERNS"
  by (simp_all add: EXTRACT_FIELD_PATTERNS_def)

lemma step_simple_ok:
  assumes "engine_ok re_search text"
  shows "step_policy_number re_search text e =
           Inr (set_policy ''policy_number'' (opt_val (spec_extract re_search text PAT_POLICY_NUMBER)) e)"
    and "step_policyholder_name re_search text e =
           Inr (set_policy ''policyholder_name'' (opt_val (spec_extract re_search text PAT_POLICYHOLDER_NAME)) e)"
    and "step_date_of_loss re_search text e =
           Inr (set_incident ''date_of_loss'' (opt_val (spec_extract re_search text PAT_DATE_OF_LOSS)) e)"
    and "step_description re_search text e =
           Inr (set_incident ''description'' (opt_val (spec_extract re_search text PAT_DESCRIPTION)) e)"
    and "step_claimant re_search text e =
           Inr (set_parties ''claimant'' (opt_val (spec_extract re_search text PAT_CLAIMANT)) e)"
    and "step_driver_name re_search text e =
           Inr (set_parties ''driver_name'' (opt_val (spec_extract re_search text PAT_DRIVER_NAME)) e)"
    and "step_email re_search text e =
           Inr (set_parties ''contact_email'' (opt_val (spec_extract re_search text PAT_EMAIL)) e)"
    and "step_line_of_business re_search text e =
           Inr (set_other ''line_of_business'' (opt_val (spec_extract re_search text PAT_LINE_OF_BUSINESS)) e)"
    and "step_naic re_search text e =
           Inr (set_other ''naic_code'' (opt_val (spec_extract re_search text PAT_NAIC)) e)"
    and "step_claim_type text e = Inr (set_other ''claim_type'' (PStr (determine_claim_type text)) e)"
  by (simp_all add: step_policy_number_def step_policyholder_name_def step_date_of_loss_def
        step_description_def step_claimant_def step_driver_name_def step_email_def
        step_line_of_business_def step_naic_def step_claim_type_def
        bind_err_def engine_ok_extract [OF assms] in_patterns)

lemma step_effective_date_ok:
  assumes "engine_ok re_search text"
  shows "step_effective_date re_search text e =
           Inr (e\<lparr>policy_information :=
                  put_if (opt_val (spec_extract re_search text PAT_EFFECTIVE_DATE) \<noteq> PNone) ''effective_date''
                    (opt_val (spec_extract re_search text PAT_EFFECTIVE_DATE)) (policy_information e)\<rparr>)"
proof (cases "spec_extract re_search text PAT_EFFECTIVE_DATE")
  case None
  then show ?thesis
    by (simp add: step_effective_date_def bind_err_def engine_ok_extract [OF assms] in_patterns put_if_def)
next
  case (Some y)
  with spec_extract_Some [OF Some] show ?thesis
    by (simp add: step_effective_date_def bind_err_def engine_ok_extract [OF assms] in_patterns
          put_if_def set_policy_def)
qed

lemma step_time_ok:
  assumes "engine_ok re_search text"
  shows "step_time re_search text e =
           Inr (e\<lparr>incident_information :=
                  put_if (spec_time re_search text \<noteq> PNone) ''time''
                    (spec_time re_search text) (incident_information e)\<rparr>)"
proof -
  consider "re_search PAT_TIME text {IGNORECASE} = None"
    | g1 g2 where "re_search PAT_TIME text {IGNORECASE} = Some [Some g1, Some g2]"
    using engine_ok_time [OF assms] by (auto elim: two_groups.elims)
  then show ?thesis
    by cases (simp_all add: step_time_def spec_time_def put_if_def match_group_def bind_err_def
                set_incident_def)
qed

lemma step_phone_ok:
  assumes "engine_ok re_search text"
  shows "step_phone re_search text e =
           Inr (e\<lparr>involved_parties :=
                  put_if (spec_phone re_search text \<noteq> PNone) ''contact_phone''
                    (spec_phone re_search text) (involved_parties e)\<rparr>)"
proof -
  consider "re_search PAT_PHONE text {} = None"
    | g where "re_search PAT_PHONE text {} = Some [Some g]"
    using engine_ok_phone [OF assms] by (auto elim: one_group.elims)
  then show ?thesis
    by cases (simp_all add: step_phone_def spec_phone_def put_if_def match_group_def bind_err_def
                set_parties_def)
qed

lemma location_value:
  "(let location_parts = [];
        location_parts =
          (if opt_truthy street \<and> py_strip (opt_format street) \<noteq> []
           then location_parts @ [py_strip (opt_format street)] else location_parts);
        location_parts =
          (if opt_truthy city \<and> py_strip (opt_format city) \<noteq> []
           then location_parts @ [py_strip (opt_format city)] else location_parts)
    in (if location_parts \<noteq> [] then PStr (py_join '', '' location_parts) else PNone)) =
   (case (street, city) of
      (Some s, Some c) \<Rightarrow> PStr (s @ '', '' @ c)
    | (Some s, None) \<Rightarrow> PStr s
    | (None, Some c) \<Rightarrow> PStr c
    | (None, None) \<Rightarrow> PNone)"
  if "\<And>s. street = Some s \<Longrightarrow> s \<noteq> [] \<and> py_strip s = s"
     "\<And>s. city = Some s \<Longrightarrow> s \<noteq> [] \<and> py_strip s = s"
  using that by (cases street; cases city) simp_all

lemma step_location_ok:
  assumes "engine_ok re_search text"
  shows "step_location re_search text e =
           Inr (set_incident ''location'' (spec_location re_search text) e)"
proof -
  let ?street = "spec_extract re_search text PAT_STREET"
  let ?city = "spec_extract re_search text PAT_CITY_STATE_ZIP"
  have v: "(let location_parts = [];
        location_parts =
          (if opt_truthy ?street \<and> py_strip (opt_format ?street) \<noteq> []
           then location_parts @ [py_strip (opt_format ?street)] else location_parts);
        location_parts =
          (if opt_truthy ?city \<and> py_strip (opt_format ?city) \<noteq> []
           then location_parts @ [py_strip (opt_format ?city)] else location_parts)
    in (if location_parts \<noteq> [] then PStr (py_join '', '' location_parts) else PNone)) =
    spec_location re_search text"
    unfolding spec_location_def
    by (rule location_value) (rule spec_extract_Some, assumption)+
  show ?thesis
    unfolding step_location_def
    by (simp only: engine_ok_extract [OF assms] in_patterns bind_err_def sum.case v [symmetric])
       (simp add: Let_def)
qed


lemma present_parts_eq:
  assumes "\<And>s. a = Some s \<Longrightarrow> s \<noteq> []" "\<And>s. b = Some s \<Longrightarrow> s \<noteq> []"
    "\<And>s. c = Some s \<Longrightarrow> s \<noteq> []"
  shows "filter_truthy [a, b, c] = present_parts [a, b, c]"
    and "(opt_truthy a \<or> opt_truthy b \<or> opt_truthy c) = (present_parts [a, b, c] \<noteq> [])"
  using assms by (cases a; cases b; cases c; simp add: filter_truthy_def)+

lemma step_vehicle_ok:
  assumes "engine_ok re_search text"
  shows "step_vehicle re_search text e =
           Inr (e\<lparr>asset_details :=
                  (put_if (spec_vehicle_description re_search text \<noteq> PNone) ''vehicle_description''
                     (spec_vehicle_description re_search text)
                     ((asset_details e)(''asset_type'' \<mapsto> PStr ''vehicle'')))
                  (''asset_id'' \<mapsto> opt_val (spec_extract re_search text PAT_VIN))\<rparr>)"
proof -
  let ?y = "spec_extract re_search text PAT_VEHICLE_YEAR"
  let ?mk = "spec_extract re_search text PAT_VEHICLE_MAKE"
  let ?md = "spec_extract re_search text PAT_VEHICLE_MODEL"
  have ne: "\<And>s. ?y = Some s \<Longrightarrow> s \<noteq> []" "\<And>s. ?mk = Some s \<Longrightarrow> s \<noteq> []"
    "\<And>s. ?md = Some s \<Longrightarrow> s \<noteq> []"
    using spec_extract_Some by blast+
  note pp = present_parts_eq [of ?y ?mk ?md, OF ne]
  show ?thesis
    unfolding step_vehicle_def
    by (simp only: engine_ok_extract [OF assms] in_patterns bind_err_def sum.case pp)
       (simp add: Let_def spec_vehicle_description_def put_if_def set_asset_def)
qed

lemma step_estimate_ok:
  assumes "engine_ok re_search text"
  shows "step_estimate re_search F text e =
           Inr (e\<lparr>asset_details :=
                  put_if (spec_extract re_search text PAT_ESTIMATE \<noteq> None) ''estimated_damage''
                    (spec_estimated_damage re_search F text) (asset_details e)\<rparr>)"
  unfolding step_estimate_def
  by (simp only: engine_ok_extract [OF assms] in_patterns bind_err_def sum.case)
     (auto simp: Let_def spec_estimated_damage_def put_if_def set_asset_def spec_extract_truthy
        split: option.splits)

lemmas steps_ok = step_simple_ok step_effective_date_ok step_time_ok step_location_ok
  step_phone_ok step_vehicle_ok step_estimate_ok

lemmas set_defs = set_policy_def set_incident_def set_parties_def set_asset_def set_other_def

lemma extract_from_text_ok:
  assumes ok: "engine_ok re_search text"
  shows "snd (extract_from_text re_search F text) = None"
  unfolding extract_from_text_def extraction_steps_def extracted_init_def
  by (simp add: steps_ok [OF ok] set_defs)

lemma put_if_values:
  "(if v \<noteq> PNone then v else PNone) = v"
  "(if \<exists>y. spec_extract re_search text PAT_ESTIMATE = Some y
    then spec_estimated_damage re_search F text else PNone)
     = spec_estimated_damage re_search F text"
  by (auto simp: spec_estimated_damage_def)

lemma assemble_refines:
  assumes ok: "engine_ok re_search text"
  shows "flatten_extracted_data (fst (extract_from_text re_search F text)) = spec_assemble re_search F text"
  unfolding extract_from_text_def extraction_steps_def extracted_init_def
  by (simp add: steps_ok [OF ok] set_defs flatten_extracted_data_def spec_assemble_def
        dict_get_put_if dict_get_upd dict_get_empty put_if_values cong: if_cong)

section \<open>The field extractor: result in every case\<close>

lemma match_group_1:
  "match_group m (Suc 0) = (case m of [] \<Rightarrow> Inl IndexError | g # rest \<Rightarrow> Inr g)"
  by (cases m) (simp_all add: match_group_def)

lemma extract_field_cases:
  "extract_field re_search text pattern =
     (case re_search pattern text {IGNORECASE, MULTILINE} of
        None \<Rightarrow> Inr None
      | Some [] \<Rightarrow> Inl IndexError
      | Some (None # rest) \<Rightarrow> Inl AttributeError
      | Some (Some g # rest) \<Rightarrow>
          Inr (if spec_normalize g = [] then None else Some (spec_normalize g)))"
proof (cases "re_search pattern text {IGNORECASE, MULTILINE}")
  case None
  then show ?thesis by (simp add: extract_field_def)
next
  case (Some m)
  then show ?thesis
    by (cases m; cases "hd m")
       (simp_all add: extract_field_def match_group_1 normalize_refines Let_def)
qed

text \<open>
  Claim C5, as amended. For every text and every pattern with one capturing group that takes
  part in every match, as the group of each pattern of the program does, the extractor
  searches with the flags IGNORECASE and MULTILINE and uses the one match that the search
  returns, the first in the text. It never raises. When there is no match it returns absent.
  When there is one, it returns the captured string with every run of whitespace collapsed
  to one space and the ends trimmed, or absent when nothing remains. It returns absent
  exactly in these two cases: no match, or a captured value that normalises to the empty
  string.
\<close>

theorem extract_field_spec:
  assumes "one_group (re_search pattern text {IGNORECASE, MULTILINE})"
  shows "(re_search pattern text {IGNORECASE, MULTILINE} = None
            \<or> (\<exists>g. re_search pattern text {IGNORECASE, MULTILINE} = Some [Some g]))
       \<and> (\<exists>r. extract_field re_search text pattern = Inr r)
       \<and> (re_search pattern text {IGNORECASE, MULTILINE} = None \<longrightarrow>
            extract_field re_search text pattern = Inr None)
       \<and> (\<forall>g. re_search pattern text {IGNORECASE, MULTILINE} = Some [Some g] \<longrightarrow>
            extract_field re_search text pattern =
              Inr (if spec_normalize g = [] then None else Some (spec_normalize g)))
       \<and> (extract_field re_search text pattern = Inr None \<longleftrightarrow>
            re_search pattern text {IGNORECASE, MULTILINE} = None
            \<or> (\<exists>g. re_search pattern text {IGNORECASE, MULTILINE} = Some [Some g]
                  \<and> spec_normalize g = []))"
proof -
  consider "re_search pattern text {IGNORECASE, MULTILINE} = None"
    | g where "re_search pattern text {IGNORECASE, MULTILINE} = Some [Some g]"
    using assms by (auto elim: one_group.elims)
  then show ?thesis
    by cases (simp_all add: extract_field_cases)
qed

theorem extract_field_spec_witness:
  "one_group (sample_search PAT_STREET sample_text {IGNORECASE, MULTILINE})
   \<and> sample_search PAT_STREET sample_text {IGNORECASE, MULTILINE} = Some [Some ''12  Main St '']
   \<and> extract_field sample_search sample_text PAT_STREET = Inr (Some ''12 Main St'')
   \<and> one_group (sample_search PAT_VIN sample_text {IGNORECASE, MULTILINE})
   \<and> sample_search PAT_VIN sample_text {IGNORECASE, MULTILINE} = None
   \<and> extract_field sample_search sample_text PAT_VIN = Inr None"
proof -
  have s: "sample_search PAT_STREET sample_text {IGNORECASE, MULTILINE} = Some [Some ''12  Main St '']"
    by (simp add: sample_search_def PAT_STREET_def PAT_POLICY_NUMBER_def)
  have v: "sample_search PAT_VIN sample_text {IGNORECASE, MULTILINE} = None"
    by (simp add: sample_search_def PAT_VIN_def PAT_STREET_def PAT_POLICY_NUMBER_def PAT_ESTIMATE_def)
  have os: "one_group (sample_search PAT_STREET sample_text {IGNORECASE, MULTILINE})"
    by (simp add: s)
  have ov: "one_group (sample_search PAT_VIN sample_text {IGNORECASE, MULTILINE})"
    by (simp add: v)
  have n: "spec_normalize ''12  Main St '' = ''12 Main St''" by code_simp
  show ?thesis
    using extract_field_spec [of sample_search PAT_STREET sample_text, OF os]
      extract_field_spec [of sample_search PAT_VIN sample_text, OF ov] s v os ov
    by (simp add: n)
qed

text \<open>
  Claim C5 as stated fails: the pattern \<^verbatim>\<open>r'A(b)?'\<close> has one capturing group, the
  search on the text \<^verbatim>\<open>A\<close> finds a match, and the extractor returns neither the group
  nor absent: it raises AttributeError.
\<close>

theorem extract_field_optional_group_counterexample:
  "optional_group_search PAT_OPTIONAL_GROUP ''A'' {IGNORECASE, MULTILINE} = Some [None]
   \<and> extract_field optional_group_search ''A'' PAT_OPTIONAL_GROUP = Inl AttributeError"
  by (simp add: extract_field_cases optional_group_search_def)

section \<open>The classifier: a priority cascade\<close>

lemma list_ex_injury:
  "list_ex (\<lambda>keyword. sublist keyword t) injury_keywords =
     (sublist ''injury'' t \<or> sublist ''injured'' t \<or> sublist ''hospital'' t \<or>
      sublist ''medical'' t \<or> sublist ''ambulance'' t \<or> sublist ''bodily'' t)"
  by (simp add: injury_keywords_def)

text \<open>
  Claim C6. The classifier lower-cases the text and returns \<open>injury\<close> when one of
  injury, injured, hospital, medical, ambulance, bodily occurs in it; otherwise
  \<open>property_damage\<close> when property or damage occurs; otherwise \<open>collision\<close> when
  collision or accident occurs; otherwise \<open>auto\<close>. The first rule that applies decides:
  an injury term wins also when damage or collision terms are present.
\<close>

theorem classify_cascade:
  "determine_claim_type text =
     (if sublist ''injury'' (py_lower text) \<or> sublist ''injured'' (py_lower text)
         \<or> sublist ''hospital'' (py_lower text) \<or> sublist ''medical'' (py_lower text)
         \<or> sublist ''ambulance'' (py_lower text) \<or> sublist ''bodily'' (py_lower text)
      then ''injury''
      else if sublist ''property'' (py_lower text) \<or> sublist ''damage'' (py_lower text)
      then ''property_damage''
      else if sublist ''collision'' (py_lower text) \<or> sublist ''accident'' (py_lower text)
      then ''collision''
      else ''auto'')"
  by (simp add: determine_claim_type_def Let_def list_ex_injury py_in_def)

theorem classify_cascade_witness:
  "sublist ''hospital'' (py_lower ''Hospital DAMAGE'') \<and> sublist ''damage'' (py_lower ''Hospital DAMAGE'')
   \<and> determine_claim_type ''Hospital DAMAGE'' = ''injury''"
proof -
  have l: "py_lower ''Hospital DAMAGE'' = ''hospital damage''" by code_simp
  have h: "sublist ''hospital'' ''hospital damage''" by code_simp
  have d: "sublist ''damage'' ''hospital damage''" by code_simp
  show ?thesis using classify_cascade [of "''Hospital DAMAGE''"] h d by (simp add: l)
qed

section \<open>The validator\<close>

lemma validate_loop_filter:
  "validate_loop d fs acc = acc @ filter (\<lambda>f. \<not> truthy (dict_get d f)) fs"
  by (induction fs arbitrary: acc) auto

lemma falsy_string_or_none:
  "string_or_none d k \<Longrightarrow> (\<not> truthy (dict_get d k)) = absent_or_empty d k"
  by (auto simp: string_or_none_def absent_or_empty_def dict_get_def split: option.splits py_val.splits)

text \<open>
  Claim C4, as amended. For every record whose mandatory fields hold strings or nothing, the
  validator returns exactly the mandatory fields whose value is absent or the empty string,
  in the order policy_number, policyholder_name, date_of_loss, location_of_loss,
  description_of_accident, claim_type. The validator does not normalise: a string of
  whitespace counts as present.
\<close>

theorem validate_fields_exact:
  assumes "\<forall>k \<in> set MANDATORY_FIELDS. string_or_none flattened_data k"
  shows "validate_fields flattened_data =
           filter (absent_or_empty flattened_data)
             [''policy_number'', ''policyholder_name'', ''date_of_loss'', ''location_of_loss'',
              ''description_of_accident'', ''claim_type'']"
proof -
  have "filter (\<lambda>f. \<not> truthy (dict_get flattened_data f)) MANDATORY_FIELDS =
        filter (absent_or_empty flattened_data) MANDATORY_FIELDS"
    using assms by (intro filter_cong refl) (simp add: falsy_string_or_none)
  then show ?thesis
    by (simp add: validate_fields_def validate_loop_filter) (simp add: MANDATORY_FIELDS_def)
qed

theorem validate_fields_exact_witness:
  "validate_fields [''policy_number'' \<mapsto> PStr ''ABC123'', ''policyholder_name'' \<mapsto> PStr '''',
                    ''date_of_loss'' \<mapsto> PNone, ''location_of_loss'' \<mapsto> PStr ''12 Main St'',
                    ''claim_type'' \<mapsto> PStr ''auto''] =
     [''policyholder_name'', ''date_of_loss'', ''description_of_accident'']"
proof -
  let ?d = "[''policy_number'' \<mapsto> PStr ''ABC123'', ''policyholder_name'' \<mapsto> PStr '''',
             ''date_of_loss'' \<mapsto> PNone, ''location_of_loss'' \<mapsto> PStr ''12 Main St'',
             ''claim_type'' \<mapsto> PStr ''auto'']"
  have h: "\<forall>k \<in> set MANDATORY_FIELDS. string_or_none ?d k"
    by (simp add: MANDATORY_FIELDS_def string_or_none_def)
  show ?thesis
    using validate_fields_exact [OF h] by (simp add: absent_or_empty_def)
qed

text \<open>
  Claim C4 as stated fails: a policy number that consists of whitespace normalises to the
  empty string, and the validator does not report it.
\<close>

theorem validate_whitespace_counterexample:
  "spec_normalize ''   '' = [] \<and>
   validate_fields [''policy_number'' \<mapsto> PStr ''   '', ''policyholder_name'' \<mapsto> PStr ''Jane Doe'',
                    ''date_of_loss'' \<mapsto> PStr ''01/02/2024'', ''location_of_loss'' \<mapsto> PStr ''12 Main St'',
                    ''description_of_accident'' \<mapsto> PStr ''rear bumper dent'',
                    ''claim_type'' \<mapsto> PStr ''auto''] = []"
proof -
  have "spec_normalize ''   '' = []" by code_simp
  then show ?thesis
    by (simp add: validate_fields_def MANDATORY_FIELDS_def dict_get_def)
qed

section \<open>The routing engine\<close>

lemma digit_chars:
  "digit_char 0 = CHR ''0''" "digit_char 1 = CHR ''1''" "digit_char 2 = CHR ''2''"
  "digit_char 3 = CHR ''3''" "digit_char 4 = CHR ''4''" "digit_char 5 = CHR ''5''"
  "digit_char 6 = CHR ''6''" "digit_char 7 = CHR ''7''" "digit_char 8 = CHR ''8''"
  "digit_char 9 = CHR ''9''"
  by code_simp+
lemma dec_digits_threshold: "dec_digits 25000 = ''25000''"
  by (simp add: dec_digits.simps digit_chars)
lemma threshold_text: "fmt_int_comma FAST_TRACK_THRESHOLD = ''25,000''"
  by (simp add: fmt_int_comma_def FAST_TRACK_THRESHOLD_def dec_digits_threshold group3_def)
lemma round_threshold: "round_half_even (2500000) = 2500000"
  by (simp add: round_half_even_def)
lemma threshold_float_text: "fmt_float_comma_2f (Finite 25000) = ''25,000.00''"
  by (simp add: round_threshold dec_digits_threshold group3_def digit_chars)

lemma route_claim_missing:
  "missing_fields \<noteq> [] \<Longrightarrow>
     route_claim flattened_data missing_fields =
       Inr (''Manual Review'', ''Missing mandatory fields: '' @ py_join '', '' missing_fields)"
  by (simp add: route_claim_def)

lemma route_claim_none_description:
  "flattened_data ''description_of_accident'' = Some PNone \<Longrightarrow>
     route_claim flattened_data [] = Inl AttributeError"
  by (simp add: route_claim_def dict_get_default_def)

lemma route_claim_gates:
  assumes "method_lower (dict_get_default flattened_data ''description_of_accident'' (PStr '''')) = Inr description"
  shows "route_claim flattened_data [] =
     (if list_ex (\<lambda>keyword. py_in keyword description) FRAUD_KEYWORDS then
        Inr (''Investigation Queue'', ''Description contains potential fraud indicators'')
      else if dict_get flattened_data ''claim_type'' = PStr ''injury'' then
        Inr (''Specialist Queue'', ''Claim involves injury and requires specialist review'')
      else
        (case dict_get flattened_data ''estimated_damage'' of
           PNone \<Rightarrow> Inr (''Manual Review'', ''Estimated damage amount is missing or invalid'')
         | PStr s \<Rightarrow> Inl TypeError
         | PFloat x \<Rightarrow>
             if float_lt_int x 25000 then
               Inr (''Fast-Track'', ''Estimated damage ($'' @ fmt_float_comma_2f x
                      @ '') is below fast-track threshold ($25,000)'')
             else
               Inr (''Standard Processing'', ''Estimated damage ($'' @ fmt_float_comma_2f x
                      @ '') exceeds fast-track threshold ($25,000)'')))"
  using assms
  by (simp add: route_claim_def threshold_text split: py_val.splits)
     (simp add: FAST_TRACK_THRESHOLD_def)

lemma route_claim_decides:
  assumes "missing_fields \<noteq> [] \<or>
           (\<exists>description. method_lower (dict_get_default flattened_data ''description_of_accident'' (PStr ''''))
               = Inr description)"
    and "\<forall>s. dict_get flattened_data ''estimated_damage'' \<noteq> PStr s"
  shows "\<exists>route reason. route_claim flattened_data missing_fields = Inr (route, reason)
           \<and> route \<in> set ROUTES \<and> reason \<noteq> []"
proof (cases "missing_fields = []")
  case False
  then show ?thesis by (simp add: route_claim_missing ROUTES_def)
next
  case True
  with assms(1) obtain description where
    d: "method_lower (dict_get_default flattened_data ''description_of_accident'' (PStr '''')) = Inr description"
    by auto
  show ?thesis
    using assms(2) unfolding True route_claim_gates [OF d]
    by (cases "dict_get flattened_data ''estimated_damage''") (simp_all add: ROUTES_def)
qed

text \<open>
  Claim C1. Routing is meant to return a decision for every record and list of missing
  fields, and to treat an absent description as free of fraud keywords. The code calls
  \<open>lower\<close> on the value \<open>None\<close> of an absent description: with an empty list of
  missing fields it raises AttributeError.
\<close>

theorem route_claim_raises_on_absent_description:
  "route_claim record_without_description [] = Inl AttributeError"
  by (rule route_claim_none_description) (simp add: record_without_description_def)

text \<open>
  Claim C2. Routing is meant to return one of the five routes with a reason for every
  record and list of missing fields, the earlier gate winning. For a record of an injury
  claim whose description is absent, with an empty list of missing fields, the code returns
  no route: the fraud gate raises AttributeError before the injury gate is reached.
\<close>

theorem route_claim_raises_before_injury_gate:
  "route_claim (record_without_description(''claim_type'' \<mapsto> PStr ''injury'')) [] = Inl AttributeError"
  by (rule route_claim_none_description) (simp add: record_without_description_def)

text \<open>
  Claim C3. For a record with no missing field, no fraud keyword in the description and a
  claim type other than injury, the damage gate is meant to decide: Fast-Track below 25000,
  Standard Processing from 25000 on, Manual Review when the estimate is absent. The record
  below has an absent description, which holds no keyword, the claim type auto and the
  estimated damage 10000, below 25000. The code does not return Fast-Track: the fraud gate
  raises AttributeError and the damage gate is never reached.
\<close>

theorem damage_gate_unreached_without_description:
  "record_without_description ''description_of_accident'' = Some PNone
   \<and> record_without_description ''claim_type'' = Some (PStr ''auto'')
   \<and> record_without_description ''estimated_damage'' = Some (PFloat (Finite 10000))
   \<and> route_claim record_without_description [] = Inl AttributeError"
proof -
  have "route_claim record_without_description [] = Inl AttributeError"
    by (rule route_claim_none_description) (simp add: record_without_description_def)
  then show ?thesis by (simp add: record_without_description_def)
qed

text \<open>
  Where the description is a string without fraud keyword, or the key of the description is
  missing from the record, the damage gate decides by the threshold: an estimate below 25000
  gives Fast-Track, one of 25000 or more gives Standard Processing (25000 itself too), and
  an absent one gives Manual Review, with the reason that the amount is missing or invalid.
\<close>

lemma damage_threshold_gate:
  assumes "flattened_data ''description_of_accident'' = None
           \<or> (\<exists>description. flattened_data ''description_of_accident'' = Some (PStr description)
                 \<and> (\<forall>keyword \<in> set [''fraud'', ''inconsistent'', ''staged'', ''suspicious'', ''fabricated''].
                       \<not> sublist keyword (py_lower description)))"
    and "flattened_data ''claim_type'' \<noteq> Some (PStr ''injury'')"
  shows "(\<forall>q. flattened_data ''estimated_damage'' = Some (PFloat (Finite q)) \<and> q < 25000 \<longrightarrow>
            route_claim flattened_data [] =
              Inr (''Fast-Track'', ''Estimated damage ($'' @ fmt_float_comma_2f (Finite q)
                     @ '') is below fast-track threshold ($25,000)''))
       \<and> (\<forall>q. flattened_data ''estimated_damage'' = Some (PFloat (Finite q)) \<and> 25000 \<le> q \<longrightarrow>
            route_claim flattened_data [] =
              Inr (''Standard Processing'', ''Estimated damage ($'' @ fmt_float_comma_2f (Finite q)
                     @ '') exceeds fast-track threshold ($25,000)''))
       \<and> (flattened_data ''estimated_damage'' = Some (PFloat (Finite 25000)) \<longrightarrow>
            route_claim flattened_data [] =
              Inr (''Standard Processing'',
                   ''Estimated damage ($25,000.00) exceeds fast-track threshold ($25,000)''))
       \<and> (flattened_data ''estimated_damage'' = None \<or> flattened_data ''estimated_damage'' = Some PNone \<longrightarrow>
            route_claim flattened_data [] =
              Inr (''Manual Review'', ''Estimated damage amount is missing or invalid''))"
proof -
  obtain d where
    d: "method_lower (dict_get_default flattened_data ''description_of_accident'' (PStr [])) = Inr d"
    and nk: "\<forall>keyword \<in> set [''fraud'', ''inconsistent'', ''staged'', ''suspicious'', ''fabricated''].
               \<not> sublist keyword d"
    using assms(1) by (auto simp: dict_get_default_def py_lower_def)
  have nf: "\<not> list_ex (\<lambda>keyword. py_in keyword d) FRAUD_KEYWORDS"
    using nk by (simp add: FRAUD_KEYWORDS_def py_in_def)
  have ni: "dict_get flattened_data ''claim_type'' \<noteq> PStr ''injury''"
    using assms(2) by (auto simp: dict_get_def split: option.splits)
  have lt: "route_claim flattened_data [] =
              Inr (''Fast-Track'', ''Estimated damage ($'' @ fmt_float_comma_2f (Finite q)
                     @ '') is below fast-track threshold ($25,000)'')"
    if "flattened_data ''estimated_damage'' = Some (PFloat (Finite q))" "q < 25000" for q
    unfolding route_claim_gates [OF d] using nf ni that by (simp add: dict_get_def)
  have ge: "route_claim flattened_data [] =
              Inr (''Standard Processing'', ''Estimated damage ($'' @ fmt_float_comma_2f (Finite q)
                     @ '') exceeds fast-track threshold ($25,000)'')"
    if "flattened_data ''estimated_damage'' = Some (PFloat (Finite q))" "25000 \<le> q" for q
    unfolding route_claim_gates [OF d] using nf ni that by (simp add: dict_get_def)
  have eq: "route_claim flattened_data [] =
              Inr (''Standard Processing'',
                   ''Estimated damage ($25,000.00) exceeds fast-track threshold ($25,000)'')"
    if "flattened_data ''estimated_damage'' = Some (PFloat (Finite 25000))"
    using ge [OF that] by (simp only: threshold_float_text) simp
  have ab: "route_claim flattened_data [] =
              Inr (''Manual Review'', ''Estimated damage amount is missing or invalid'')"
    if "flattened_data ''estimated_damage'' = None \<or> flattened_data ''estimated_damage'' = Some PNone"
    unfolding route_claim_gates [OF d] using nf ni that by (auto simp: dict_get_def)
  show ?thesis
    using lt ge eq ab by blast
qed

lemma damage_threshold_gate_boundary:
  "route_claim [''description_of_accident'' \<mapsto> PStr ''Rear bumper dent'',
                ''claim_type'' \<mapsto> PStr ''collision'',
                ''estimated_damage'' \<mapsto> PFloat (Finite 25000)] [] =
     Inr (''Standard Processing'',
          ''Estimated damage ($25,000.00) exceeds fast-track threshold ($25,000)'')"
proof -
  let ?d = "[''description_of_accident'' \<mapsto> PStr ''Rear bumper dent'',
             ''claim_type'' \<mapsto> PStr ''collision'',
             ''estimated_damage'' \<mapsto> PFloat (Finite 25000)]"
  have 2: "\<forall>keyword \<in> set [''fraud'', ''inconsistent'', ''staged'', ''suspicious'', ''fabricated''].
             \<not> sublist keyword (py_lower ''Rear bumper dent'')"
    by code_simp
  then have 1: "?d ''description_of_accident'' = None
           \<or> (\<exists>description. ?d ''description_of_accident'' = Some (PStr description)
                 \<and> (\<forall>keyword \<in> set [''fraud'', ''inconsistent'', ''staged'', ''suspicious'', ''fabricated''].
                       \<not> sublist keyword (py_lower description)))"
    by simp
  have 3: "?d ''claim_type'' \<noteq> Some (PStr ''injury'')" by simp
  have 4: "?d ''estimated_damage'' = Some (PFloat (Finite 25000))" by simp
  from damage_threshold_gate [OF 1 3]
  have "?d ''estimated_damage'' = Some (PFloat (Finite 25000)) \<longrightarrow>
          route_claim ?d [] =
            Inr (''Standard Processing'',
                 ''Estimated damage ($25,000.00) exceeds fast-track threshold ($25,000)'')"
    by (elim conjE)
  then show ?thesis using 4 by (rule mp)
qed

lemma damage_threshold_gate_missing_key:
  "route_claim [''claim_type'' \<mapsto> PStr ''auto'',
                ''estimated_damage'' \<mapsto> PFloat (Finite 10000)] [] =
     Inr (''Fast-Track'',
          ''Estimated damage ($'' @ fmt_float_comma_2f (Finite 10000)
            @ '') is below fast-track threshold ($25,000)'')"
proof -
  let ?d = "[''claim_type'' \<mapsto> PStr ''auto'', ''estimated_damage'' \<mapsto> PFloat (Finite 10000)]"
  have 1: "?d ''description_of_accident'' = None
           \<or> (\<exists>description. ?d ''description_of_accident'' = Some (PStr description)
                 \<and> (\<forall>keyword \<in> set [''fraud'', ''inconsistent'', ''staged'', ''suspicious'', ''fabricated''].
                       \<not> sublist keyword (py_lower description)))"
    by simp
  have 3: "?d ''claim_type'' \<noteq> Some (PStr ''injury'')" by simp
  have 4: "?d ''estimated_damage'' = Some (PFloat (Finite 10000)) \<and> (10000::rat) < 25000" by simp
  from damage_threshold_gate [OF 1 3]
  have "\<forall>q. ?d ''estimated_damage'' = Some (PFloat (Finite q)) \<and> q < 25000 \<longrightarrow>
            route_claim ?d [] =
              Inr (''Fast-Track'', ''Estimated damage ($'' @ fmt_float_comma_2f (Finite q)
                     @ '') is below fast-track threshold ($25,000)'')"
    by (elim conjE)
  then show ?thesis using 4 by blast
qed

lemma lower_sublist: "sublist w d \<Longrightarrow> sublist (py_lower w) (py_lower d)"
  unfolding py_lower_def by (rule map_mono_sublist)

text \<open>
  Claim C9. Fraud keywords are matched as substrings, in any case of the letters: when the
  description contains a string whose lower-case form is one of fraud, inconsistent, staged,
  suspicious, fabricated, also inside a longer word, and no field is missing, the route is
  Investigation Queue with the fixed reason.
\<close>

theorem fraud_gate_substring:
  assumes "flattened_data ''description_of_accident'' = Some (PStr description)"
    and "keyword \<in> set [''fraud'', ''inconsistent'', ''staged'', ''suspicious'', ''fabricated'']"
    and "sublist w description" and "py_lower w = keyword"
  shows "route_claim flattened_data [] =
           Inr (''Investigation Queue'', ''Description contains potential fraud indicators'')"
proof -
  have "sublist keyword (py_lower description)"
    using assms(3,4) lower_sublist by blast
  with assms(2) have "list_ex (\<lambda>keyword. py_in keyword (py_lower description)) FRAUD_KEYWORDS"
    by (auto simp: FRAUD_KEYWORDS_def py_in_def)
  with assms(1) show ?thesis
    by (simp add: route_claim_def dict_get_default_def)
qed

theorem fraud_gate_substring_witness:
  "route_claim [''description_of_accident'' \<mapsto> PStr ''He was DEFRAUDED, acting Suspiciously'',
                ''claim_type'' \<mapsto> PStr ''injury'',
                ''estimated_damage'' \<mapsto> PFloat (Finite 100)] [] =
     Inr (''Investigation Queue'', ''Description contains potential fraud indicators'')"
proof -
  have s: "sublist ''FRAUD'' ''He was DEFRAUDED, acting Suspiciously''" by code_simp
  have l: "py_lower ''FRAUD'' = ''fraud''" by code_simp
  show ?thesis
    by (rule fraud_gate_substring [where description = "''He was DEFRAUDED, acting Suspiciously''"
          and w = "''FRAUD''" and keyword = "''fraud''"]) (simp_all add: s l)
qed

section \<open>Assembly of the record\<close>

lemma dom_flatten: "dom (flatten_extracted_data e) = set FLAT_KEYS"
  by (auto simp: flatten_extracted_data_def FLAT_KEYS_def)

lemma dom_spec_assemble: "dom (spec_assemble re_search F text) = set FLAT_KEYS"
  by (auto simp: spec_assemble_def FLAT_KEYS_def)

lemma flat_keys_count: "distinct FLAT_KEYS \<and> length FLAT_KEYS = 18"
  by (simp add: FLAT_KEYS_def)

lemma spec_assemble_depends:
  assumes "\<forall>p \<in> set (field_patterns k). \<forall>flags. re_search p text flags = re_search' p text flags"
  shows "spec_assemble re_search F text k = spec_assemble re_search' F text k"
proof (cases "k \<in> set FLAT_KEYS")
  case False
  then have "k \<notin> dom (spec_assemble re_search F text)" "k \<notin> dom (spec_assemble re_search' F text)"
    by (simp_all only: dom_spec_assemble not_False_eq_True)
  then show ?thesis by (simp add: domIff)
next
  case True
  then consider "k = ''policy_number''" | "k = ''policyholder_name''" | "k = ''effective_date''"
    | "k = ''date_of_loss''" | "k = ''time_of_loss''" | "k = ''location_of_loss''"
    | "k = ''description_of_accident''" | "k = ''claimant''" | "k = ''driver_name''"
    | "k = ''contact_phone''" | "k = ''contact_email''" | "k = ''asset_type''" | "k = ''asset_id''"
    | "k = ''vehicle_description''" | "k = ''estimated_damage''" | "k = ''claim_type''"
    | "k = ''line_of_business''" | "k = ''naic_code''"
    unfolding FLAT_KEYS_def by (elim insertE emptyE | simp only: set_simps)+ 
  then show ?thesis
    using assms
    by cases
      (simp_all add: spec_assemble_def field_patterns_def spec_time_def spec_location_def
         spec_phone_def spec_vehicle_description_def spec_estimated_damage_def spec_extract_def)
qed


lemmas PAT_defs = PAT_POLICY_NUMBER_def PAT_POLICYHOLDER_NAME_def PAT_EFFECTIVE_DATE_def
  PAT_DATE_OF_LOSS_def PAT_STREET_def PAT_CITY_STATE_ZIP_def PAT_DESCRIPTION_def PAT_CLAIMANT_def
  PAT_DRIVER_NAME_def PAT_EMAIL_def PAT_VEHICLE_YEAR_def PAT_VEHICLE_MAKE_def
  PAT_VEHICLE_MODEL_def PAT_VIN_def PAT_ESTIMATE_def PAT_LINE_OF_BUSINESS_def PAT_NAIC_def
  PAT_TIME_def PAT_PHONE_def

lemma sample_engine_ok: "engine_ok sample_search sample_text"
  by (simp add: engine_ok_def EXTRACT_FIELD_PATTERNS_def sample_search_def PAT_defs)

lemma sample_texts_differ: "sample_text_bad \<noteq> sample_text"
  by (simp add: sample_text_def sample_text_bad_def)

lemma sample_engine_bad_ok: "engine_ok sample_search sample_text_bad"
  by (simp add: engine_ok_def EXTRACT_FIELD_PATTERNS_def sample_search_def sample_texts_differ PAT_defs)

lemma no_match_engine_ok: "engine_ok (\<lambda>pattern text flags. None) text"
  by (simp add: engine_ok_def list_all_iff)

lemma spec_assemble_no_match:
  assumes "k \<in> set FLAT_KEYS" "k \<noteq> ''asset_type''" "k \<noteq> ''claim_type''"
  shows "spec_assemble (\<lambda>pattern text flags. None) F text k = Some PNone"
proof -
  from assms(1) consider "k = ''policy_number''" | "k = ''policyholder_name''" | "k = ''effective_date''"
    | "k = ''date_of_loss''" | "k = ''time_of_loss''" | "k = ''location_of_loss''"
    | "k = ''description_of_accident''" | "k = ''claimant''" | "k = ''driver_name''"
    | "k = ''contact_phone''" | "k = ''contact_email''" | "k = ''asset_type''" | "k = ''asset_id''"
    | "k = ''vehicle_description''" | "k = ''estimated_damage''" | "k = ''claim_type''"
    | "k = ''line_of_business''" | "k = ''naic_code''"
    unfolding FLAT_KEYS_def by (elim insertE emptyE | simp only: set_simps)+
  then show ?thesis
    using assms(2,3)
    by cases
      (simp_all add: spec_assemble_def spec_time_def spec_location_def
         spec_phone_def spec_vehicle_description_def spec_estimated_damage_def spec_extract_def)
qed

text \<open>
  Claim C7. For every input, also when reading the document failed or no pattern matches,
  the flattened record has exactly the eighteen keys. With the guarantees of the library
  for the patterns of the program no step raises, so the extraction runs to its end; a field
  whose patterns find nothing is absent, under its key; and the value of a field depends only
  on the search results of its own patterns, so a pattern that finds nothing leaves the other
  fields as they are.
\<close>

theorem assemble_all_keys:
  "dom (flatten_extracted_data (extract_from_pdf re_search F pdf)) = set FLAT_KEYS
   \<and> dom (flatten_extracted_data (fst (extract_from_text re_search F text))) = set FLAT_KEYS
   \<and> distinct FLAT_KEYS \<and> length FLAT_KEYS = 18
   \<and> (engine_ok re_search text \<longrightarrow> snd (extract_from_text re_search F text) = None)
   \<and> (engine_ok re_search text \<and> k \<in> set FLAT_KEYS \<and> k \<noteq> ''asset_type'' \<and> k \<noteq> ''claim_type''
        \<and> (\<forall>p \<in> set (field_patterns k). \<forall>flags. re_search p text flags = None)
        \<longrightarrow> flatten_extracted_data (fst (extract_from_text re_search F text)) k = Some PNone)
   \<and> (engine_ok re_search text \<and> engine_ok re_search' text
        \<and> (\<forall>p \<in> set (field_patterns k). \<forall>flags. re_search p text flags = re_search' p text flags)
        \<longrightarrow> flatten_extracted_data (fst (extract_from_text re_search F text)) k =
            flatten_extracted_data (fst (extract_from_text re_search' F text)) k)"
proof -
  have a: "spec_assemble re_search F text k = Some PNone"
    if "k \<in> set FLAT_KEYS" "k \<noteq> ''asset_type''" "k \<noteq> ''claim_type''"
       "\<forall>p \<in> set (field_patterns k). \<forall>flags. re_search p text flags = None"
    using spec_assemble_depends [of k re_search "text" "\<lambda>pattern text flags. None" F]
      spec_assemble_no_match [OF that(1-3), of F "text"] that(4)
    by simp
  show ?thesis
    using spec_assemble_depends [of k re_search "text" re_search' F] a
    by (simp add: dom_flatten flat_keys_count extract_from_text_ok assemble_refines)
qed

theorem assemble_all_keys_witness:
  "engine_ok sample_search sample_text \<and> engine_ok (\<lambda>pattern text flags. None) sample_text
   \<and> field_patterns ''date_of_loss'' = [PAT_DATE_OF_LOSS]
   \<and> sample_search PAT_DATE_OF_LOSS sample_text {IGNORECASE, MULTILINE} = None
   \<and> dom (flatten_extracted_data (fst (extract_from_text sample_search sample_float_of sample_text)))
       = set FLAT_KEYS
   \<and> snd (extract_from_text sample_search sample_float_of sample_text) = None
   \<and> flatten_extracted_data (fst (extract_from_text sample_search sample_float_of sample_text))
        ''date_of_loss'' = Some PNone
   \<and> flatten_extracted_data (fst (extract_from_text sample_search sample_float_of sample_text))
        ''date_of_loss'' =
      flatten_extracted_data
        (fst (extract_from_text (\<lambda>pattern text flags. None) sample_float_of sample_text))
        ''date_of_loss''"
proof -
  have d: "\<forall>p \<in> set (field_patterns ''date_of_loss''). \<forall>flags. sample_search p sample_text flags = None"
    by (simp add: field_patterns_def sample_search_def PAT_defs)
  then have d': "\<forall>p \<in> set (field_patterns ''date_of_loss'').
      \<forall>flags. sample_search p sample_text flags = (\<lambda>pattern text flags. None) p sample_text flags"
    by simp
  have k: "''date_of_loss'' \<in> set FLAT_KEYS" "''date_of_loss'' \<noteq> ''asset_type''"
    "''date_of_loss'' \<noteq> ''claim_type''"
    by (simp_all add: FLAT_KEYS_def)
  have f: "field_patterns ''date_of_loss'' = [PAT_DATE_OF_LOSS]"
    by (simp add: field_patterns_def)
  have s: "sample_search PAT_DATE_OF_LOSS sample_text {IGNORECASE, MULTILINE} = None"
    using d by (simp add: f)
  note ok = sample_engine_ok no_match_engine_ok [of sample_text]
  from assemble_all_keys [of sample_search sample_float_of "Inr [sample_text]" sample_text
        "''date_of_loss''" "\<lambda>pattern text flags. None"]
  show ?thesis
    using ok d d' k f s by blast
qed

lemma spec_assemble_parser:
  assumes "k \<noteq> ''estimated_damage''"
  shows "spec_assemble re_search F text k = spec_assemble re_search F' text k"
proof (cases "k \<in> set FLAT_KEYS")
  case False
  then have "k \<notin> dom (spec_assemble re_search F text)" "k \<notin> dom (spec_assemble re_search F' text)"
    by (simp_all only: dom_spec_assemble not_False_eq_True)
  then show ?thesis by (simp add: domIff)
next
  case True
  then consider "k = ''policy_number''" | "k = ''policyholder_name''" | "k = ''effective_date''"
    | "k = ''date_of_loss''" | "k = ''time_of_loss''" | "k = ''location_of_loss''"
    | "k = ''description_of_accident''" | "k = ''claimant''" | "k = ''driver_name''"
    | "k = ''contact_phone''" | "k = ''contact_email''" | "k = ''asset_type''" | "k = ''asset_id''"
    | "k = ''vehicle_description''" | "k = ''estimated_damage''" | "k = ''claim_type''"
    | "k = ''line_of_business''" | "k = ''naic_code''"
    unfolding FLAT_KEYS_def by (elim insertE emptyE | simp only: set_simps)+
  then show ?thesis
    using assms by cases (simp_all add: spec_assemble_def)
qed

text \<open>
  Claim C8. When the estimate pattern matches, the captured string is normalised, every comma
  is removed from it and the result is given to \<open>float\<close>: the field is the float that comes
  back. When \<open>float\<close> raises ValueError the estimated damage is absent; nothing is raised,
  the extraction runs to its end, and every other field is the same whatever \<open>float\<close>
  returns.
\<close>

theorem estimate_parse_failure_is_absent:
  assumes "engine_ok re_search text"
    and "re_search PAT_ESTIMATE text {IGNORECASE, MULTILINE} = Some [Some g]"
  shows "flatten_extracted_data (fst (extract_from_text re_search F text)) ''estimated_damage'' =
           Some (if spec_normalize g = [] then PNone
                 else case F (filter (\<lambda>c. c \<noteq> CHR '','') (spec_normalize g)) of
                        None \<Rightarrow> PNone | Some x \<Rightarrow> PFloat x)
       \<and> snd (extract_from_text re_search F text) = None
       \<and> (\<forall>F' k. k \<noteq> ''estimated_damage'' \<longrightarrow>
             flatten_extracted_data (fst (extract_from_text re_search F text)) k =
             flatten_extracted_data (fst (extract_from_text re_search F' text)) k)"
proof -
  have 1: "spec_assemble re_search F text ''estimated_damage'' =
           Some (if spec_normalize g = [] then PNone
                 else case F (filter (\<lambda>c. c \<noteq> CHR '','') (spec_normalize g)) of
                        None \<Rightarrow> PNone | Some x \<Rightarrow> PFloat x)"
    using assms(2)
    by (simp add: spec_assemble_def spec_estimated_damage_def spec_extract_def remove_commas_def)
  show ?thesis
    unfolding assemble_refines [OF assms(1)]
  proof (intro conjI allI impI)
    show "spec_assemble re_search F text ''estimated_damage'' =
           Some (if spec_normalize g = [] then PNone
                 else case F (filter (\<lambda>c. c \<noteq> CHR '','') (spec_normalize g)) of
                        None \<Rightarrow> PNone | Some x \<Rightarrow> PFloat x)"
      by (rule 1)
    show "snd (extract_from_text re_search F text) = None"
      by (rule extract_from_text_ok [OF assms(1)])
    show "spec_assemble re_search F text k = spec_assemble re_search F' text k"
      if "k \<noteq> ''estimated_damage''" for F' k
      using that by (rule spec_assemble_parser)
  qed
qed

theorem estimate_parse_failure_is_absent_witness:
  "engine_ok sample_search sample_text
   \<and> sample_search PAT_ESTIMATE sample_text {IGNORECASE, MULTILINE} = Some [Some ''10,000.00'']
   \<and> sample_float_of ''10,000.00'' = None
   \<and> sample_float_of ''10000.00'' = Some (Finite 10000)
   \<and> flatten_extracted_data (fst (extract_from_text sample_search sample_float_of sample_text))
        ''estimated_damage'' = Some (PFloat (Finite 10000))
   \<and> snd (extract_from_text sample_search sample_float_of sample_text) = None
   \<and> engine_ok sample_search sample_text_bad
   \<and> sample_search PAT_ESTIMATE sample_text_bad {IGNORECASE, MULTILINE} = Some [Some '','']
   \<and> sample_float_of [] = None
   \<and> flatten_extracted_data (fst (extract_from_text sample_search sample_float_of sample_text_bad))
        ''estimated_damage'' = Some PNone
   \<and> snd (extract_from_text sample_search sample_float_of sample_text_bad) = None"
proof -
  have m: "sample_search PAT_ESTIMATE sample_text {IGNORECASE, MULTILINE} = Some [Some ''10,000.00'']"
    by (simp add: sample_search_def PAT_defs)
  have mb: "sample_search PAT_ESTIMATE sample_text_bad {IGNORECASE, MULTILINE} = Some [Some '','']"
    by (simp add: sample_search_def sample_texts_differ PAT_defs)
  have n: "spec_normalize ''10,000.00'' = ''10,000.00''" by code_simp
  have nb: "spec_normalize '','' = '',''" by code_simp
  have f: "sample_float_of ''10,000.00'' = None" "sample_float_of ''10000.00'' = Some (Finite 10000)"
    "sample_float_of [] = None"
    by (simp_all add: sample_float_of_def)
  note t = estimate_parse_failure_is_absent [of sample_search sample_text "''10,000.00''" sample_float_of,
      OF sample_engine_ok m]
  note tb = estimate_parse_failure_is_absent [of sample_search sample_text_bad "'',''" sample_float_of,
      OF sample_engine_bad_ok mb]
  have v: "flatten_extracted_data (fst (extract_from_text sample_search sample_float_of sample_text))
        ''estimated_damage'' = Some (PFloat (Finite 10000))"
    using t by (simp add: n f)
  have vb: "flatten_extracted_data (fst (extract_from_text sample_search sample_float_of sample_text_bad))
        ''estimated_damage'' = Some PNone"
    using tb by (simp add: nb f)
  show ?thesis
    using t tb v vb sample_engine_ok sample_engine_bad_ok m mb f by blast
qed

text \<open>
  Claim C10. For every text, the claim type of the assembled record is present and is one
  of injury, property_damage, collision, auto; the asset type is vehicle; and the validator
  never reports claim_type as missing.
\<close>

theorem claim_type_always_present:
  assumes "engine_ok re_search text"
  shows "flatten_extracted_data (fst (extract_from_text re_search F text)) ''claim_type'' =
           Some (PStr (determine_claim_type text))
       \<and> determine_claim_type text \<in> {''injury'', ''property_damage'', ''collision'', ''auto''}
       \<and> flatten_extracted_data (fst (extract_from_text re_search F text)) ''asset_type'' =
           Some (PStr ''vehicle'')
       \<and> ''claim_type'' \<notin> set (validate_fields
             (flatten_extracted_data (fst (extract_from_text re_search F text))))"
proof -
  have ct: "determine_claim_type text \<in> {''injury'', ''property_damage'', ''collision'', ''auto''}"
    by (simp add: determine_claim_type_def Let_def)
  then have ne: "determine_claim_type text \<noteq> []" by auto
  have c: "spec_assemble re_search F text ''claim_type'' = Some (PStr (determine_claim_type text))"
    by (simp add: spec_assemble_def)
  have a: "spec_assemble re_search F text ''asset_type'' = Some (PStr ''vehicle'')"
    by (simp add: spec_assemble_def)
  have v: "''claim_type'' \<notin> set (validate_fields (spec_assemble re_search F text))"
    using c ne by (simp add: validate_fields_def validate_loop_filter dict_get_def)
  show ?thesis
    using ct c a v by (simp add: assemble_refines [OF assms])
qed

theorem claim_type_always_present_witness:
  "engine_ok sample_search sample_text
   \<and> flatten_extracted_data (fst (extract_from_text sample_search sample_float_of sample_text))
        ''claim_type'' = Some (PStr ''auto'')
   \<and> flatten_extracted_data (fst (extract_from_text sample_search sample_float_of sample_text))
        ''asset_type'' = Some (PStr ''vehicle'')
   \<and> ''claim_type'' \<notin> set (validate_fields
        (flatten_extracted_data (fst (extract_from_text sample_search sample_float_of sample_text))))"
proof -
  have c: "determine_claim_type sample_text = ''auto''" by code_simp
  show ?thesis
    using claim_type_always_present [OF sample_engine_ok, of sample_float_of] sample_engine_ok
    by (simp add: c)
qed

section \<open>The pipeline never reaches the defect of the fraud gate\<close>

text \<open>
  In \<open>process_claim\<close> the list of missing fields comes from the validator, so a record
  without description is stopped by the completeness gate.
\<close>

lemma spec_assemble_description:
  "spec_assemble re_search F text ''description_of_accident'' =
     Some (opt_val (spec_extract re_search text PAT_DESCRIPTION))"
  by (simp add: spec_assemble_def)

lemma spec_assemble_damage:
  "spec_assemble re_search F text ''estimated_damage'' =
     Some (spec_estimated_damage re_search F text)"
  by (simp add: spec_assemble_def)

lemma pipeline_never_raises:
  assumes "engine_ok re_search (pages_text pages)"
  shows "\<exists>r. process_claim re_search F (Inr pages) = Inr r"
proof -
  let ?rec = "spec_assemble re_search F (pages_text pages)"
  have dmg: "\<forall>s. dict_get ?rec ''estimated_damage'' \<noteq> PStr s"
    by (simp add: dict_get_def spec_assemble_damage spec_estimated_damage_def split: option.splits)
  have "validate_fields ?rec \<noteq> [] \<or>
        (\<exists>description. method_lower (dict_get_default ?rec ''description_of_accident'' (PStr ''''))
            = Inr description)"
  proof (cases "spec_extract re_search (pages_text pages) PAT_DESCRIPTION")
    case None
    then have "''description_of_accident'' \<in> set (validate_fields ?rec)"
      by (simp add: validate_fields_def validate_loop_filter MANDATORY_FIELDS_def dict_get_def
            spec_assemble_description)
    then show ?thesis by auto
  next
    case (Some s)
    then show ?thesis by (simp add: dict_get_default_def spec_assemble_description)
  qed
  from route_claim_decides [OF this dmg]
  obtain route reason where "route_claim ?rec (validate_fields ?rec) = Inr (route, reason)"
    by blast
  then show ?thesis
    by (simp add: process_claim_def extract_from_pdf_def assemble_refines [OF assms] bind_err_def Let_def)
qed

end
